theory Spec2Isabelle
  imports Main "HOL-Library.AList" "HOL-Library.Char_ord" "HOL-Library.List_Lexorder"
begin

section \<open>Values read from and written to JSON\<close>

text \<open>
  The program keeps its registry in one JSON file and talks to the vendor API in JSON.
  A value decoded by \<^verbatim>\<open>json.load\<close> is \<open>None\<close>, a bool, a number, a \<open>str\<close>, a
  \<open>list\<close> or a \<open>dict\<close> with \<open>str\<close> keys. A Python \<open>dict\<close> keeps insertion order, so
  it is an association list; its keys are distinct in every value Python can build.
  Numbers are only ever passed through by this program, so integers stand for them.
\<close>

datatype json =
    JNull
  | JBool bool
  | JNum int
  | JStr string
  | JArr "json list"
  | JObj "(string \<times> json) list"

type_synonym dict = "(string \<times> json) list"

text \<open>\<^verbatim>\<open>k in d\<close> and \<^verbatim>\<open>d.get(k)\<close> are \<open>map_of\<close>; \<^verbatim>\<open>d[k] = v\<close> is \<open>AList.update\<close>
  (replace in place, or append); \<^verbatim>\<open>del d[k]\<close> is \<open>AList.delete\<close>.\<close>

text \<open>Exceptions that are not \<open>GoveeError\<close>: nothing in the program catches them.
  \<open>OSError\<close> stands for its subclasses other than \<open>FileNotFoundError\<close>
  (\<open>PermissionError\<close>, \<open>IsADirectoryError\<close>, ...); \<open>OtherException\<close> for what
  escapes the network transport (a time-out or a reset while the response is read).\<close>

datatype pyexc = AttributeError | TypeError | UnicodeDecodeError | OSError | OtherException

datatype config_problem =
    ParseError string      \<comment> \<open>\<open>json.JSONDecodeError\<close>, with its text\<close>
  | GroupsNotObject        \<comment> \<open>the value under \<open>_groups\<close> is not a dict\<close>

text \<open>
  Every \<^verbatim>\<open>raise GoveeError(...)\<close> of the source is one constructor, carrying the values
  the message interpolates:
  \<^item> \<open>ConfigCorrupt path p\<close>: \<open>_load_raw_config\<close> (``Config JSON is invalid at path: e'')
    and \<open>load_config_groups\<close> (``path has invalid '_groups' format'');
  \<^item> \<open>AmbiguousSelector\<close>: \<open>resolve_targets\<close>, ``Use only one of --name or --group'';
  \<^item> \<open>UnknownGroup g\<close>: ``Group 'g' not found'' in \<open>resolve_targets\<close>,
    \<open>groups_add_members\<close> and \<open>groups_remove_members\<close>;
  \<^item> \<open>GroupReferencesUnknownNickname g n\<close>: ``Group 'g' refers to unknown nickname 'n' '';
  \<^item> \<open>InvalidGroupMember g m\<close>: ``Invalid member in group 'g': m'';
  \<^item> \<open>EmptyGroup g\<close>: ``Group 'g' has no members.'';
  \<^item> \<open>UnknownNickname n\<close>: ``Nickname 'n' not found'' in \<open>resolve_single_target\<close> and
    ``Unknown nickname 'n' '' in \<open>groups_add_members\<close>;
  \<^item> \<open>AmbiguousAutoDetect\<close>: ``Specify --name OR --device and --model, or have exactly
    one H6008 on the account.'';
  \<^item> \<open>NoMembersGiven\<close>: ``Provide at least one member ...'' / ``Provide members to remove'';
  \<^item> \<open>InvalidPair p\<close>: ``Invalid pair 'p'. Expected id:model'';
  \<^item> \<open>ApiError msg\<close>: any \<open>GoveeError\<close> raised by \<open>api_request\<close>;
  \<^item> \<open>Uncaught x\<close>: an exception that is not a \<open>GoveeError\<close>.
\<close>

datatype error =
    ConfigCorrupt string config_problem
  | AmbiguousSelector
  | UnknownGroup string
  | GroupReferencesUnknownNickname string string
  | InvalidGroupMember string json
  | EmptyGroup string
  | UnknownNickname string
  | AmbiguousAutoDetect
  | NoMembersGiven
  | InvalidPair string
  | ApiError string
  | Uncaught pyexc

text \<open>
  What the program reads from its surroundings: the expanded \<open>CONFIG_PATH\<close>, and what
  Python's \<open>str()\<close> prints for a value that is not a \<open>str\<close> (on a \<open>str\<close> it is the
  identity).
\<close>

record env =
  CONFIG_PATH :: string
  str_other :: "json \<Rightarrow> string"

definition GROUPS_KEY :: string where
  "GROUPS_KEY = ''_groups''"

fun py_str :: "env \<Rightarrow> json \<Rightarrow> string" where
  "py_str e (JStr s) = s"
| "py_str e v = str_other e v"

text \<open>\<^verbatim>\<open>for x in v\<close>: a list gives its elements, a \<open>str\<close> its characters, a \<open>dict\<close>
  its keys; \<open>None\<close>, a bool and a number raise \<open>TypeError\<close>.\<close>

fun py_iter :: "json \<Rightarrow> error + json list" where
  "py_iter (JArr xs) = Inr xs"
| "py_iter (JStr s) = Inr (map (\<lambda>c. JStr [c]) s)"
| "py_iter (JObj kvs) = Inr (map (\<lambda>kv. JStr (fst kv)) kvs)"
| "py_iter v = Inl (Uncaught TypeError)"

text \<open>
  The vendor API is reached through \<open>api_request\<close>: it returns the decoded response,
  raises \<open>GoveeError\<close> (missing key, HTTP error, network error, response that is not
  JSON), or lets another exception of the transport escape.
\<close>

datatype api_result = Response json | Failed string | Crashed

fun api_outcome :: "api_result \<Rightarrow> error + json" where
  "api_outcome (Response v) = Inr v"
| "api_outcome (Failed msg) = Inl (ApiError msg)"
| "api_outcome Crashed = Inl (Uncaught OtherException)"

definition example_env :: env where
  "example_env = \<lparr>CONFIG_PATH = ''/home/u/.config/govee_devices.json'', str_other = (\<lambda>v. ''?'')\<rparr>"

text \<open>\<^verbatim>\<open>bool(x)\<close> of an optional command-line string.\<close>

fun truthy :: "string option \<Rightarrow> bool" where
  "truthy None = False"
| "truthy (Some s) = (s \<noteq> [])"

section \<open>Registry Store\<close>

text \<open>
  The file at \<open>CONFIG_PATH\<close> is described by what \<^verbatim>\<open>open\<close> and \<^verbatim>\<open>json.load\<close> make
  of it:
  \<^item> \<open>Missing\<close>: \<^verbatim>\<open>open\<close> raises \<open>FileNotFoundError\<close>;
  \<^item> \<open>Unreadable x\<close>: \<^verbatim>\<open>open\<close> or the reading of the file raises another exception
    \<open>x\<close>, which \<open>_load_raw_config\<close> has no handler for: \<open>UnicodeDecodeError\<close> when
    the bytes of the file are not UTF-8, an \<open>OSError\<close> when the file may not be read;
  \<^item> \<open>Malformed msg\<close>: the file is read as text and \<^verbatim>\<open>json.load\<close> raises
    \<open>JSONDecodeError\<close> with the message \<open>msg\<close>;
  \<^item> \<open>Doc v\<close>: the text is JSON and decodes to \<open>v\<close>.
\<close>

datatype config_file = Missing | Unreadable pyexc | Malformed string | Doc json

definition load_raw_config :: "env \<Rightarrow> config_file \<Rightarrow> error + json" where
  "load_raw_config e f =
     (case f of
        Missing \<Rightarrow> Inr (JObj [])
      | Unreadable x \<Rightarrow> Inl (Uncaught x)
      | Malformed msg \<Rightarrow> Inl (ConfigCorrupt (CONFIG_PATH e) (ParseError msg))
      | Doc v \<Rightarrow> Inr v)"

text \<open>The nickname directory in memory: \<open>Dict[str, Dict[str, str]]\<close>, every value built
  as \<^verbatim>\<open>{"id": ..., "model": ...}\<close>; the pair is \<open>(id, model)\<close>.\<close>

type_synonym devmap = "(string \<times> (string \<times> string)) list"

fun devices_loop :: "env \<Rightarrow> dict \<Rightarrow> devmap \<Rightarrow> devmap" where
  "devices_loop e [] out = out"
| "devices_loop e ((k, v) # rest) out =
     (if k = GROUPS_KEY then devices_loop e rest out
      else case v of
        JObj ob \<Rightarrow>
          (case (map_of ob ''id'', map_of ob ''model'') of
             (Some i, Some m) \<Rightarrow> devices_loop e rest (AList.update k (py_str e i, py_str e m) out)
           | _ \<Rightarrow> devices_loop e rest out)
      | _ \<Rightarrow> devices_loop e rest out)"

definition load_config_devices :: "env \<Rightarrow> config_file \<Rightarrow> error + devmap" where
  "load_config_devices e f =
     (case load_raw_config e f of
        Inl err \<Rightarrow> Inl err
      | Inr (JObj kvs) \<Rightarrow> Inr (devices_loop e kvs [])
      | Inr _ \<Rightarrow> Inl (Uncaught AttributeError))"

definition load_config_groups :: "env \<Rightarrow> config_file \<Rightarrow> error + dict" where
  "load_config_groups e f =
     (case load_raw_config e f of
        Inl err \<Rightarrow> Inl err
      | Inr (JObj kvs) \<Rightarrow>
          (case map_of kvs GROUPS_KEY of
             None \<Rightarrow> Inr []
           | Some (JObj groups) \<Rightarrow> Inr groups
           | Some _ \<Rightarrow> Inl (ConfigCorrupt (CONFIG_PATH e) GroupsNotObject))
      | Inr _ \<Rightarrow> Inl (Uncaught AttributeError))"

text \<open>
  \<^verbatim>\<open>json.dump(payload, f, indent=2, sort_keys=True)\<close> writes every dict with its keys
  in sorted order; reading the text back gives the same value with the keys of every
  dict sorted.
\<close>

primrec sort_keys :: "json \<Rightarrow> json" where
  "sort_keys JNull = JNull"
| "sort_keys (JBool b) = JBool b"
| "sort_keys (JNum n) = JNum n"
| "sort_keys (JStr s) = JStr s"
| "sort_keys (JArr xs) = JArr (map sort_keys xs)"
| "sort_keys (JObj kvs) = JObj (sort_key fst (map (map_prod id sort_keys) kvs))"

definition devref_json :: "string \<times> string \<Rightarrow> json" where
  "devref_json d = JObj [(''id'', JStr (fst d)), (''model'', JStr (snd d))]"

definition save_full_config :: "devmap \<Rightarrow> dict \<Rightarrow> config_file" where
  "save_full_config devmap groups =
     (let payload = map (map_prod id devref_json) (sort_key fst devmap);
          payload = AList.update GROUPS_KEY (JObj groups) payload
      in Doc (sort_keys (JObj payload)))"

section \<open>Target Resolver\<close>

type_synonym target = "json \<times> json"

text \<open>\<^verbatim>\<open>d.get(k, default)\<close> on a value that must be a dict.\<close>

fun py_get :: "json \<Rightarrow> string \<Rightarrow> json \<Rightarrow> error + json" where
  "py_get (JObj kvs) k dflt = Inr (case map_of kvs k of None \<Rightarrow> dflt | Some v \<Rightarrow> v)"
| "py_get v k dflt = Inl (Uncaught AttributeError)"

text \<open>The comprehension \<^verbatim>\<open>[d for d in items if d.get("model") == "H6008"]\<close>.\<close>

fun h6008_filter :: "json list \<Rightarrow> error + json list" where
  "h6008_filter [] = Inr []"
| "h6008_filter (d # ds) =
     (case py_get d ''model'' JNull of
        Inl err \<Rightarrow> Inl err
      | Inr m \<Rightarrow>
          (case h6008_filter ds of
             Inl err \<Rightarrow> Inl err
           | Inr r \<Rightarrow> Inr (if m = JStr ''H6008'' then d # r else r)))"

definition guess_single_h6008 :: "json \<Rightarrow> error + target option" where
  "guess_single_h6008 devices =
     (case py_get devices ''data'' devices of
        Inl err \<Rightarrow> Inl err
      | Inr dat \<Rightarrow>
     (case py_get dat ''devices'' (JArr []) of
        Inl err \<Rightarrow> Inl err
      | Inr items \<Rightarrow>
     (case py_iter items of
        Inl err \<Rightarrow> Inl err
      | Inr ds \<Rightarrow>
     (case h6008_filter ds of
        Inl err \<Rightarrow> Inl err
      | Inr [d] \<Rightarrow>
          (case py_get d ''device'' JNull of
             Inl err \<Rightarrow> Inl err
           | Inr dev \<Rightarrow>
          (case py_get d ''model'' (JStr ''H6008'') of
             Inl err \<Rightarrow> Inl err
           | Inr mdl \<Rightarrow> Inr (Some (dev, mdl))))
      | Inr _ \<Rightarrow> Inr None))))"

text \<open>\<open>list_devices()\<close> is the vendor API: its outcome \<open>listing\<close> is an input here, used
  only on the path that calls it.\<close>

definition resolve_single_target ::
  "env \<Rightarrow> config_file \<Rightarrow> api_result \<Rightarrow> string option \<Rightarrow> string option \<Rightarrow> string option
     \<Rightarrow> error + target" where
  "resolve_single_target e f listing name device model =
     (if truthy name then
        (case load_config_devices e f of
           Inl err \<Rightarrow> Inl err
         | Inr devmap \<Rightarrow>
             (case map_of devmap (the name) of
                None \<Rightarrow> Inl (UnknownNickname (the name))
              | Some ent \<Rightarrow> Inr (JStr (fst ent), JStr (snd ent))))
      else if truthy device \<and> truthy model then Inr (JStr (the device), JStr (the model))
      else
        (case api_outcome listing of
           Inl err \<Rightarrow> Inl err
         | Inr devices \<Rightarrow>
             (case guess_single_h6008 devices of
                Inl err \<Rightarrow> Inl err
              | Inr (Some t) \<Rightarrow> Inr t
              | Inr None \<Rightarrow> Inl AmbiguousAutoDetect)))"

text \<open>One round of the loop over the members of a group. The parameter \<open>group\<close> of
  the source is \<open>grp\<close> here, \<open>group\<close> being a constant of HOL.\<close>

fun resolve_member :: "env \<Rightarrow> devmap \<Rightarrow> string \<Rightarrow> json \<Rightarrow> error + target" where
  "resolve_member e devmap grp (JStr m) =
     (case map_of devmap m of
        None \<Rightarrow> Inl (GroupReferencesUnknownNickname grp m)
      | Some ent \<Rightarrow> Inr (JStr (fst ent), JStr (snd ent)))"
| "resolve_member e devmap grp (JObj ob) =
     (case (map_of ob ''id'', map_of ob ''model'') of
        (Some i, Some m) \<Rightarrow> Inr (JStr (py_str e i), JStr (py_str e m))
      | _ \<Rightarrow> Inl (InvalidGroupMember grp (JObj ob)))"
| "resolve_member e devmap grp m = Inl (InvalidGroupMember grp m)"

fun resolve_loop :: "env \<Rightarrow> devmap \<Rightarrow> string \<Rightarrow> json list \<Rightarrow> target list \<Rightarrow> error + target list" where
  "resolve_loop e devmap grp [] resolved = Inr resolved"
| "resolve_loop e devmap grp (m # ms) resolved =
     (case resolve_member e devmap grp m of
        Inl err \<Rightarrow> Inl err
      | Inr t \<Rightarrow> resolve_loop e devmap grp ms (resolved @ [t]))"

definition resolve_targets ::
  "env \<Rightarrow> config_file \<Rightarrow> api_result \<Rightarrow> string option \<Rightarrow> string option \<Rightarrow> string option
     \<Rightarrow> string option \<Rightarrow> error + target list" where
  "resolve_targets e f listing name device model grp =
     (if length (filter truthy [name, grp]) > 1 then Inl AmbiguousSelector
      else if truthy grp then
        (case load_config_devices e f of
           Inl err \<Rightarrow> Inl err
         | Inr devmap \<Rightarrow>
        (case load_config_groups e f of
           Inl err \<Rightarrow> Inl err
         | Inr groups \<Rightarrow>
        (case map_of groups (the grp) of
           None \<Rightarrow> Inl (UnknownGroup (the grp))
         | Some JNull \<Rightarrow> Inl (UnknownGroup (the grp))
         | Some members \<Rightarrow>
        (case py_iter members of
           Inl err \<Rightarrow> Inl err
         | Inr ms \<Rightarrow>
        (case resolve_loop e devmap (the grp) ms [] of
           Inl err \<Rightarrow> Inl err
         | Inr resolved \<Rightarrow>
             if resolved = [] then Inl (EmptyGroup (the grp)) else Inr resolved)))))
      else
        (case resolve_single_target e f listing name device model of
           Inl err \<Rightarrow> Inl err
         | Inr t \<Rightarrow> Inr [t]))"

section \<open>Group resolution as the specification words it\<close>

text \<open>
  A stored member is a tagged union: a string is a reference to a nickname, a dict
  holding both \<open>id\<close> and \<open>model\<close> is an inline device (its two fields read as text),
  anything else is of another shape.
\<close>

datatype member = NicknameRef string | InlineRef string string | OtherShape json

fun member_of :: "env \<Rightarrow> json \<Rightarrow> member" where
  "member_of e (JStr n) = NicknameRef n"
| "member_of e (JObj ob) =
     (if ''id'' \<in> fst ` set ob \<and> ''model'' \<in> fst ` set ob
      then InlineRef (py_str e (the (map_of ob ''id''))) (py_str e (the (map_of ob ''model'')))
      else OtherShape (JObj ob))"
| "member_of e v = OtherShape v"

text \<open>What one member stands for: its target, or the failure it causes.\<close>

fun bind_member :: "devmap \<Rightarrow> string \<Rightarrow> member \<Rightarrow> error + target" where
  "bind_member devmap g (NicknameRef n) =
     (if n \<in> fst ` set devmap
      then Inr (JStr (fst (the (map_of devmap n))), JStr (snd (the (map_of devmap n))))
      else Inl (GroupReferencesUnknownNickname g n))"
| "bind_member devmap g (InlineRef i m) = Inr (JStr i, JStr m)"
| "bind_member devmap g (OtherShape v) = Inl (InvalidGroupMember g v)"

text \<open>
  The member list is mapped in order; the first member that fails decides the failure;
  a list that resolves to nothing is \<open>EmptyGroup\<close>.
\<close>

definition spec_resolve_group :: "env \<Rightarrow> devmap \<Rightarrow> string \<Rightarrow> json list \<Rightarrow> error + target list" where
  "spec_resolve_group e devmap g ms =
     (let rs = map (\<lambda>m. bind_member devmap g (member_of e m)) ms in
      case find isl rs of
        Some r \<Rightarrow> Inl (projl r)
      | None \<Rightarrow> if ms = [] then Inl (EmptyGroup g) else Inr (map projr rs))"

section \<open>Example inputs\<close>

text \<open>A registry file with one nickname and one group of three members, the second
  an inline device and the third a repetition of the first.\<close>

definition example_file :: config_file where
  "example_file = Doc (JObj
     [(''lamp'', JObj [(''id'', JStr ''dev1''), (''model'', JStr ''H6008'')]),
      (''_groups'', JObj
         [(''room'', JArr [JStr ''lamp'',
                           JObj [(''model'', JStr ''H1''), (''id'', JStr ''x'')],
                           JStr ''lamp''])])])"

text \<open>Answers of the device listing: an account with the given devices.\<close>

definition account :: "dict list \<Rightarrow> json" where
  "account ds = JObj [(''code'', JNum 200), (''data'', JObj [(''devices'', JArr (map JObj ds))])]"

definition device_a :: dict where
  "device_a = [(''device'', JStr ''a''), (''model'', JStr ''H6008''), (''controllable'', JBool True)]"

definition device_b :: dict where
  "device_b = [(''device'', JStr ''b''), (''model'', JStr ''H6008''), (''controllable'', JBool True)]"

definition device_c :: dict where
  "device_c = [(''device'', JStr ''c''), (''model'', JStr ''H6159''), (''controllable'', JBool True)]"

section \<open>Command Dispatcher\<close>

text \<open>
  \<open>control(device, model, cmd)\<close> sends one request. The network is not the program's:
  \<open>api\<close> answers a request given the requests sent before it. The state records the
  requests sent and the lines printed, one constructor per \<^verbatim>\<open>print\<close> of
  \<open>_apply_to_targets\<close>.
\<close>

type_synonym call = "json \<times> json \<times> json"

datatype line = ResultLine json json json | ErrorLine json json string

record world =
  sent :: "call list"
  printed :: "line list"

definition control ::
  "(call list \<Rightarrow> call \<Rightarrow> api_result) \<Rightarrow> json \<Rightarrow> json \<Rightarrow> json \<Rightarrow> world \<Rightarrow> api_result \<times> world" where
  "control api device model cmd w =
     (api (sent w) (device, model, cmd), w\<lparr>sent := sent w @ [(device, model, cmd)]\<rparr>)"

text \<open>The result is the exception that ended the loop, if one did, and the state.\<close>

fun apply_to_targets ::
  "(call list \<Rightarrow> call \<Rightarrow> api_result) \<Rightarrow> target list \<Rightarrow> json \<Rightarrow> world \<Rightarrow> error option \<times> world" where
  "apply_to_targets api [] cmd w = (None, w)"
| "apply_to_targets api ((dev, mdl) # targets) cmd w =
     (case control api dev mdl cmd w of
        (Response resp, w') \<Rightarrow>
          apply_to_targets api targets cmd (w'\<lparr>printed := printed w' @ [ResultLine dev mdl resp]\<rparr>)
      | (Failed msg, w') \<Rightarrow>
          apply_to_targets api targets cmd (w'\<lparr>printed := printed w' @ [ErrorLine dev mdl msg]\<rparr>)
      | (Crashed, w') \<Rightarrow> (Some (Uncaught OtherException), w'))"

text \<open>A network that refuses every request for the device \<open>b\<close>.\<close>

definition example_api :: "call list \<Rightarrow> call \<Rightarrow> api_result" where
  "example_api h c =
     (if fst c = JStr ''b'' then Failed ''HTTP 400: device offline''
      else Response (JObj [(''code'', JNum 200), (''message'', JStr ''Success'')]))"

text \<open>A network on which the request for the device \<open>b\<close> times out while its response
  is read.\<close>

definition crashing_api :: "call list \<Rightarrow> call \<Rightarrow> api_result" where
  "crashing_api h c =
     (if fst c = JStr ''b'' then Crashed
      else Response (JObj [(''code'', JNum 200), (''message'', JStr ''Success'')]))"

definition turn_on :: json where
  "turn_on = JObj [(''name'', JStr ''turn''), (''value'', JStr ''on'')]"

section \<open>Nickname Directory and Group Directory\<close>

text \<open>
  A management command loads the registry, changes it in memory and saves it as its last
  step. Its model returns the exception that ended it, if one did, and the file as it is
  afterwards: the file it found, unless \<open>save_full_config\<close> was reached.
\<close>

definition names_add ::
  "env \<Rightarrow> config_file \<Rightarrow> string \<Rightarrow> string \<Rightarrow> string \<Rightarrow> error option \<times> config_file" where
  "names_add e f nick device model =
     (case load_config_devices e f of
        Inl err \<Rightarrow> (Some err, f)
      | Inr devmap \<Rightarrow>
     (case load_config_groups e f of
        Inl err \<Rightarrow> (Some err, f)
      | Inr groups \<Rightarrow>
          (None, save_full_config (AList.update nick (device, model) devmap) groups)))"

text \<open>The loop of \<open>names_remove\<close> over the groups: every member list is rebuilt
  without the string \<open>nick\<close>.\<close>

fun prune_groups :: "string \<Rightarrow> dict \<Rightarrow> error + dict" where
  "prune_groups nick [] = Inr []"
| "prune_groups nick ((g, members) # rest) =
     (case py_iter members of
        Inl err \<Rightarrow> Inl err
      | Inr ms \<Rightarrow>
          (case prune_groups nick rest of
             Inl err \<Rightarrow> Inl err
           | Inr rest' \<Rightarrow> Inr ((g, JArr (filter (\<lambda>m. m \<noteq> JStr nick) ms)) # rest')))"

definition names_remove :: "env \<Rightarrow> config_file \<Rightarrow> string \<Rightarrow> error option \<times> config_file" where
  "names_remove e f nick =
     (case load_config_devices e f of
        Inl err \<Rightarrow> (Some err, f)
      | Inr devmap \<Rightarrow>
     (case load_config_groups e f of
        Inl err \<Rightarrow> (Some err, f)
      | Inr groups \<Rightarrow>
          if map_of devmap nick = None then (None, f)
          else
            (case prune_groups nick groups of
               Inl err \<Rightarrow> (Some err, f)
             | Inr groups' \<Rightarrow> (None, save_full_config (AList.delete nick devmap) groups'))))"

text \<open>\<^verbatim>\<open>x or []\<close> for an optional list of arguments.\<close>

fun or_empty :: "'a list option \<Rightarrow> 'a list" where
  "or_empty None = []"
| "or_empty (Some xs) = xs"

text \<open>The dict that \<open>_parse_pairs\<close> builds from one \<open>id:model\<close> string:
  \<^verbatim>\<open>p.split(":", 1)\<close> on a string that holds a colon.\<close>

definition split_pair :: "string \<Rightarrow> json" where
  "split_pair p =
     JObj [(''id'', JStr (takeWhile (\<lambda>c. c \<noteq> CHR '':'') p)),
           (''model'', JStr (tl (dropWhile (\<lambda>c. c \<noteq> CHR '':'') p)))]"

fun parse_pairs_loop :: "string list \<Rightarrow> json list \<Rightarrow> error + json list" where
  "parse_pairs_loop [] out = Inr out"
| "parse_pairs_loop (p # ps) out =
     (if CHR '':'' \<notin> set p then Inl (InvalidPair p)
      else parse_pairs_loop ps (out @ [split_pair p]))"

definition parse_pairs :: "string list option \<Rightarrow> error + json list" where
  "parse_pairs pairs =
     (if or_empty pairs = [] then Inr []
      else parse_pairs_loop (or_empty pairs) [])"

definition groups_add_members ::
  "env \<Rightarrow> config_file \<Rightarrow> string \<Rightarrow> string list option \<Rightarrow> string list option
     \<Rightarrow> error option \<times> config_file" where
  "groups_add_members e f gname names pairs =
     (case load_config_devices e f of
        Inl err \<Rightarrow> (Some err, f)
      | Inr devmap \<Rightarrow>
     (case load_config_groups e f of
        Inl err \<Rightarrow> (Some err, f)
      | Inr groups \<Rightarrow>
     (if map_of groups gname = None then (Some (UnknownGroup gname), f)
      else
        (case parse_pairs pairs of
           Inl err \<Rightarrow> (Some err, f)
         | Inr pairs' \<Rightarrow>
        (if or_empty names = [] \<and> pairs' = [] then (Some NoMembersGiven, f)
         else
           (case find (\<lambda>n. map_of devmap n = None) (or_empty names) of
              Some n \<Rightarrow> (Some (UnknownNickname n), f)
            | None \<Rightarrow>
                (case map_of groups gname of
                   Some (JArr members) \<Rightarrow>
                     (None, save_full_config devmap
                        (AList.update gname (JArr (members @ map JStr (or_empty names) @ pairs')) groups))
                 | _ \<Rightarrow> (Some (Uncaught AttributeError), f))))))))"

section \<open>Equality of values\<close>

text \<open>
  Python's \<open>==\<close> on decoded values: lists agree element by element, dicts when they
  have as many keys and every key of one is bound to an equal value in the other, in
  whatever order the keys were inserted.
\<close>

fun py_eq :: "json \<Rightarrow> json \<Rightarrow> bool" where
  "py_eq (JArr xs) (JArr ys) = list_all2 py_eq xs ys"
| "py_eq (JObj a) (JObj b) =
     (length a = length b \<and>
      list_all (\<lambda>kv. case map_of b (fst kv) of None \<Rightarrow> False | Some w \<Rightarrow> py_eq (snd kv) w) a)"
| "py_eq x y = (x = y)"

text \<open>The values Python can hold: no dict has a key twice.\<close>

fun distinct_keys :: "json \<Rightarrow> bool" where
  "distinct_keys (JArr xs) = list_all distinct_keys xs"
| "distinct_keys (JObj kvs) = (distinct (map fst kvs) \<and> list_all (\<lambda>kv. distinct_keys (snd kv)) kvs)"
| "distinct_keys v = True"

text \<open>The nickname directory as the value that is written to the file.\<close>

definition devmap_json :: "devmap \<Rightarrow> json" where
  "devmap_json devmap = JObj (map (map_prod id devref_json) devmap)"

section \<open>The entries of a file that are nicknames\<close>

text \<open>
  The test and the conversion of the loop of \<open>load_config_devices\<close>, as functions of
  one entry of the file: used to describe what the loop returns.
\<close>

definition is_nickname_entry :: "string \<times> json \<Rightarrow> bool" where
  "is_nickname_entry kv =
     (fst kv \<noteq> GROUPS_KEY \<and>
      (case snd kv of
         JObj ob \<Rightarrow> map_of ob ''id'' \<noteq> None \<and> map_of ob ''model'' \<noteq> None
       | _ \<Rightarrow> False))"

definition nickname_entry :: "env \<Rightarrow> string \<times> json \<Rightarrow> string \<times> (string \<times> string)" where
  "nickname_entry e kv =
     (fst kv,
      case snd kv of
        JObj ob \<Rightarrow>
          (py_str e (case map_of ob ''id'' of Some i \<Rightarrow> i | None \<Rightarrow> JNull),
           py_str e (case map_of ob ''model'' of Some m \<Rightarrow> m | None \<Rightarrow> JNull))
      | _ \<Rightarrow> ([], []))"

section \<open>An example registry\<close>

text \<open>Two nicknames, not in sorted order, and a group with a nickname twice and an
  inline device whose keys are not in sorted order.\<close>

definition example_devmap :: devmap where
  "example_devmap = [(''lamp'', (''dev1'', ''H6008'')), (''desk'', (''dev2'', ''H6008''))]"

definition example_groups :: dict where
  "example_groups =
     [(''room'', JArr [JStr ''lamp'',
                       JObj [(''model'', JStr ''H1''), (''id'', JStr ''x'')],
                       JStr ''lamp''])]"

text \<open>A file with two nicknames and two groups; the group \<open>room\<close> holds the nickname
  \<open>lamp\<close> twice and an inline device with the identifier of \<open>lamp\<close>.\<close>

definition example_home :: config_file where
  "example_home = Doc (JObj
     [(''lamp'', JObj [(''id'', JStr ''dev1''), (''model'', JStr ''H6008'')]),
      (''desk'', JObj [(''id'', JStr ''dev2''), (''model'', JStr ''H6008'')]),
      (''_groups'', JObj
         [(''room'', JArr [JStr ''lamp'',
                           JObj [(''model'', JStr ''H6008''), (''id'', JStr ''dev1'')],
                           JStr ''desk'',
                           JStr ''lamp'']),
          (''hall'', JArr [JStr ''desk''])])])"

section \<open>Selectors\<close>

text \<open>
  C5. When both a name and a group are supplied (each a non-empty string), target
  resolution fails with \<open>AmbiguousSelector\<close>, whatever the registry file holds, whatever
  the device listing would answer and whatever explicit pair comes with them.
\<close>

theorem ambiguous_selector:
  assumes "n \<noteq> []" and "g \<noteq> []"
  shows "resolve_targets e f listing (Some n) device model (Some g) = Inl AmbiguousSelector"
  using assms by (simp add: resolve_targets_def)

theorem ambiguous_selector_witness:
  "resolve_targets example_env (Malformed ''Expecting value'') (Failed ''Network error'')
     (Some ''lamp'') None None (Some ''room'') = Inl AmbiguousSelector"
  using ambiguous_selector [of "''lamp''" "''room''"] by simp

section \<open>Which errors each step can raise\<close>

lemma load_config_devices_error:
  "load_config_devices e f = Inl err \<Longrightarrow>
     (\<exists>msg. err = ConfigCorrupt (CONFIG_PATH e) (ParseError msg)) \<or> (\<exists>x. err = Uncaught x)"
  by (auto simp: load_config_devices_def load_raw_config_def split: config_file.splits json.splits)

lemma load_config_groups_error:
  "load_config_groups e f = Inl err \<Longrightarrow>
     (\<exists>p. err = ConfigCorrupt (CONFIG_PATH e) p) \<or> (\<exists>x. err = Uncaught x)"
  by (auto simp: load_config_groups_def load_raw_config_def
           split: config_file.splits json.splits option.splits)

lemma resolve_member_error:
  "resolve_member e devmap g m = Inl err \<Longrightarrow>
     (\<exists>n. err = GroupReferencesUnknownNickname g n) \<or> err = InvalidGroupMember g m"
  by (cases m) (auto split: option.splits)

lemma resolve_loop_error:
  "resolve_loop e devmap g ms acc = Inl err \<Longrightarrow>
     (\<exists>n. err = GroupReferencesUnknownNickname g n) \<or> (\<exists>m. err = InvalidGroupMember g m)"
  by (induction ms arbitrary: acc) (auto split: sum.splits dest: resolve_member_error)

lemma py_iter_error: "py_iter v = Inl err \<Longrightarrow> err = Uncaught TypeError"
  by (cases v) auto

lemma py_get_error: "py_get v k d = Inl err \<Longrightarrow> err = Uncaught AttributeError"
  by (cases v) auto

lemma h6008_filter_error: "h6008_filter ds = Inl err \<Longrightarrow> err = Uncaught AttributeError"
  by (induction ds) (auto split: sum.splits dest: py_get_error)

lemma guess_single_h6008_error:
  "guess_single_h6008 v = Inl err \<Longrightarrow> (\<exists>x. err = Uncaught x)"
  by (auto simp: guess_single_h6008_def split: sum.splits list.splits
           dest: py_get_error py_iter_error h6008_filter_error)

lemma api_outcome_error:
  "api_outcome l = Inl err \<Longrightarrow> (\<exists>msg. err = ApiError msg) \<or> (\<exists>x. err = Uncaught x)"
  by (cases l) auto

section \<open>Resolving a group\<close>

lemma in_keys_iff: "k \<in> fst ` set xs \<longleftrightarrow> map_of xs k \<noteq> None"
  by (simp add: map_of_eq_None_iff)

lemma resolve_member_spec:
  "resolve_member e devmap g m = bind_member devmap g (member_of e m)"
  by (cases m) (auto simp: in_keys_iff split: option.splits)

lemma resolve_loop_spec:
  "resolve_loop e devmap g ms acc =
     (case find isl (map (\<lambda>m. bind_member devmap g (member_of e m)) ms) of
        Some r \<Rightarrow> Inl (projl r)
      | None \<Rightarrow> Inr (acc @ map (\<lambda>m. projr (bind_member devmap g (member_of e m))) ms))"
proof (induction ms arbitrary: acc)
  case Nil
  show ?case by simp
next
  case (Cons m ms)
  show ?case
    by (cases "bind_member devmap g (member_of e m)")
       (simp_all add: resolve_member_spec Cons.IH split: option.splits)
qed

text \<open>
  C1. With a registry file that loads, a group given and no name: if the group is absent
  from the group directory, resolution fails with \<open>UnknownGroup\<close>; if it is stored as
  a list of members, resolution maps them in stored order, a string member to the
  current binding of that nickname (\<open>GroupReferencesUnknownNickname\<close>, naming group and
  nickname, when there is none), an \<open>{id, model}\<close> member to itself,
  \<open>InvalidGroupMember\<close> for any other shape, the first failing member deciding;
  \<open>EmptyGroup\<close> when there is no member; on success one target per member, in the
  stored order.
\<close>

theorem resolve_group:
  assumes "load_config_devices e f = Inr devmap"
    and "load_config_groups e f = Inr groups"
    and "g \<noteq> []"
    and "\<not> truthy name"
  shows "(map_of groups g = None \<longrightarrow>
            resolve_targets e f listing name device model (Some g) = Inl (UnknownGroup g))
       \<and> (map_of groups g = Some (JArr ms) \<longrightarrow>
            resolve_targets e f listing name device model (Some g) = spec_resolve_group e devmap g ms)"
proof (intro conjI impI)
  assume "map_of groups g = None"
  with assms show "resolve_targets e f listing name device model (Some g) = Inl (UnknownGroup g)"
    by (simp add: resolve_targets_def)
next
  assume "map_of groups g = Some (JArr ms)"
  with assms show "resolve_targets e f listing name device model (Some g) = spec_resolve_group e devmap g ms"
    by (simp add: resolve_targets_def spec_resolve_group_def resolve_loop_spec Let_def comp_def
             split: option.splits)
qed


theorem resolve_group_witness:
  "load_config_devices example_env example_file = Inr [(''lamp'', (''dev1'', ''H6008''))]
   \<and> load_config_groups example_env example_file =
        Inr [(''room'', JArr [JStr ''lamp'', JObj [(''model'', JStr ''H1''), (''id'', JStr ''x'')],
                              JStr ''lamp''])]
   \<and> resolve_targets example_env example_file Crashed None None None (Some ''attic'')
        = Inl (UnknownGroup ''attic'')
   \<and> resolve_targets example_env example_file Crashed None None None (Some ''room'')
        = Inr [(JStr ''dev1'', JStr ''H6008''), (JStr ''x'', JStr ''H1''), (JStr ''dev1'', JStr ''H6008'')]"
proof -
  have d: "load_config_devices example_env example_file = Inr [(''lamp'', (''dev1'', ''H6008''))]"
    by (simp add: load_config_devices_def load_raw_config_def example_file_def GROUPS_KEY_def)
  have g: "load_config_groups example_env example_file =
        Inr [(''room'', JArr [JStr ''lamp'', JObj [(''model'', JStr ''H1''), (''id'', JStr ''x'')],
                              JStr ''lamp''])]"
    by (simp add: load_config_groups_def load_raw_config_def example_file_def GROUPS_KEY_def)
  have a: "resolve_targets example_env example_file Crashed None None None (Some ''attic'')
        = Inl (UnknownGroup ''attic'')"
    using resolve_group [OF d g, where g = "''attic''" and name = None and listing = Crashed
        and device = None and model = None] by simp
  have r: "resolve_targets example_env example_file Crashed None None None (Some ''room'')
        = Inr [(JStr ''dev1'', JStr ''H6008''), (JStr ''x'', JStr ''H1''), (JStr ''dev1'', JStr ''H6008'')]"
    using resolve_group [OF d g, where g = "''room''" and name = None and listing = Crashed
        and device = None and model = None]
    by (simp add: spec_resolve_group_def)
  from d g a r show ?thesis by simp
qed

section \<open>Auto-detection\<close>

lemma h6008_filter_objects:
  "h6008_filter (map JObj ds) =
     Inr (map JObj (filter (\<lambda>d. map_of d ''model'' = Some (JStr ''H6008'')) ds))"
  by (induction ds) (auto split: option.splits)

lemma guess_single_h6008_objects:
  assumes "py_get resp ''data'' resp = Inr dat"
    and "py_get dat ''devices'' (JArr []) = Inr (JArr (map JObj ds))"
  shows "guess_single_h6008 resp =
     Inr (case filter (\<lambda>d. map_of d ''model'' = Some (JStr ''H6008'')) ds of
            [d] \<Rightarrow> Some (case map_of d ''device'' of None \<Rightarrow> JNull | Some v \<Rightarrow> v, JStr ''H6008'')
          | _ \<Rightarrow> None)"
proof -
  let ?hs = "filter (\<lambda>d. map_of d ''model'' = Some (JStr ''H6008'')) ds"
  have guess: "guess_single_h6008 resp =
      (case map JObj ?hs of
         [d] \<Rightarrow>
          (case py_get d ''device'' JNull of
             Inl err \<Rightarrow> Inl err
           | Inr dev \<Rightarrow>
          (case py_get d ''model'' (JStr ''H6008'') of
             Inl err \<Rightarrow> Inl err
           | Inr mdl \<Rightarrow> Inr (Some (dev, mdl))))
       | _ \<Rightarrow> Inr None)"
    using assms by (simp add: guess_single_h6008_def h6008_filter_objects)
  show ?thesis
  proof (cases ?hs)
    case Nil
    with guess show ?thesis by simp
  next
    case (Cons d rest)
    then have "d \<in> set ?hs" by simp
    then have model: "map_of d ''model'' = Some (JStr ''H6008'')" by simp
    show ?thesis
    proof (cases rest)
      case Nil
      with Cons guess model show ?thesis by simp
    next
      case (Cons d' rest')
      with \<open>?hs = d # rest\<close> guess show ?thesis by simp
    qed
  qed
qed

text \<open>
  C6. With no name, no group and no complete explicit pair, and a device listing that
  holds the devices \<open>ds\<close> of the account: the devices whose model is \<open>H6008\<close> are
  selected; exactly one of them makes the resolution succeed with that device as the
  only target, none or several make it fail with \<open>AmbiguousAutoDetect\<close>.
\<close>

theorem auto_detect:
  assumes "\<not> truthy name" and "\<not> truthy grp" and "\<not> (truthy device \<and> truthy model)"
    and "py_get resp ''data'' resp = Inr dat"
    and "py_get dat ''devices'' (JArr []) = Inr (JArr (map JObj ds))"
  shows "resolve_targets e f (Response resp) name device model grp =
     (case filter (\<lambda>d. map_of d ''model'' = Some (JStr ''H6008'')) ds of
        [d] \<Rightarrow> Inr [(case map_of d ''device'' of None \<Rightarrow> JNull | Some v \<Rightarrow> v, JStr ''H6008'')]
      | _ \<Rightarrow> Inl AmbiguousAutoDetect)"
proof -
  have "resolve_targets e f (Response resp) name device model grp =
      (case guess_single_h6008 resp of
         Inl err \<Rightarrow> Inl err
       | Inr (Some t) \<Rightarrow> Inr [t]
       | Inr None \<Rightarrow> Inl AmbiguousAutoDetect)"
    using assms(1-3)
    by (auto simp: resolve_targets_def resolve_single_target_def split: sum.splits option.splits)
  then show ?thesis
    by (simp add: guess_single_h6008_objects [OF assms(4,5)] split: list.splits)
qed


theorem auto_detect_witness:
  "resolve_targets example_env Missing (Response (account [device_a, device_c])) None None None None
      = Inr [(JStr ''a'', JStr ''H6008'')]
   \<and> resolve_targets example_env Missing (Response (account [device_a, device_c, device_b])) None None None None
      = Inl AmbiguousAutoDetect
   \<and> resolve_targets example_env Missing (Response (account [device_c])) None (Some ''c'') None None
      = Inl AmbiguousAutoDetect"
proof -
  have "resolve_targets example_env Missing (Response (account [device_a, device_c])) None None None None
      = Inr [(JStr ''a'', JStr ''H6008'')]"
    using auto_detect [where name = None and grp = None and device = None and model = None
        and resp = "account [device_a, device_c]" and ds = "[device_a, device_c]"
        and dat = "JObj [(''devices'', JArr (map JObj [device_a, device_c]))]"
        and e = example_env and f = Missing]
    by (simp add: account_def device_a_def device_c_def)
  moreover have "resolve_targets example_env Missing (Response (account [device_a, device_c, device_b])) None None None None
      = Inl AmbiguousAutoDetect"
    using auto_detect [where name = None and grp = None and device = None and model = None
        and resp = "account [device_a, device_c, device_b]" and ds = "[device_a, device_c, device_b]"
        and dat = "JObj [(''devices'', JArr (map JObj [device_a, device_c, device_b]))]"
        and e = example_env and f = Missing]
    by (simp add: account_def device_a_def device_b_def device_c_def)
  moreover have "resolve_targets example_env Missing (Response (account [device_c])) None (Some ''c'') None None
      = Inl AmbiguousAutoDetect"
    using auto_detect [where name = None and grp = None and device = "Some ''c''" and model = None
        and resp = "account [device_c]" and ds = "[device_c]"
        and dat = "JObj [(''devices'', JArr (map JObj [device_c]))]"
        and e = example_env and f = Missing]
    by (simp add: account_def device_c_def)
  ultimately show ?thesis by simp
qed

section \<open>An empty name\<close>

text \<open>
  C9. An empty string given as the name counts as no name. Resolution with the empty
  name is resolution without a name, whatever the other arguments are, and neither
  \<open>AmbiguousSelector\<close> nor \<open>UnknownNickname\<close> can be its outcome. With a non-empty
  group the group path is taken: \<open>UnknownGroup\<close> for an absent group, the resolution of
  its members for a group stored as a list. Without a group, a complete explicit pair is
  returned as the only target, and otherwise the auto-detection on the device listing
  decides.
\<close>

theorem empty_name_is_absent:
  "resolve_targets e f listing (Some []) device model grp
     = resolve_targets e f listing None device model grp
   \<and> resolve_targets e f listing (Some []) device model grp \<noteq> Inl AmbiguousSelector
   \<and> resolve_targets e f listing (Some []) device model grp \<noteq> Inl (UnknownNickname n)
   \<and> (g \<noteq> [] \<and> load_config_devices e f = Inr devmap \<and> load_config_groups e f = Inr groups \<longrightarrow>
        (map_of groups g = None \<longrightarrow>
           resolve_targets e f listing (Some []) device model (Some g) = Inl (UnknownGroup g))
      \<and> (map_of groups g = Some (JArr ms) \<longrightarrow>
           resolve_targets e f listing (Some []) device model (Some g)
             = spec_resolve_group e devmap g ms))
   \<and> (\<not> truthy grp \<and> d \<noteq> [] \<and> m \<noteq> [] \<longrightarrow>
        resolve_targets e f listing (Some []) (Some d) (Some m) grp = Inr [(JStr d, JStr m)])
   \<and> (\<not> truthy grp \<and> \<not> (truthy device \<and> truthy model) \<longrightarrow>
        resolve_targets e f listing (Some []) device model grp
          = (case api_outcome listing of
               Inl err \<Rightarrow> Inl err
             | Inr devices \<Rightarrow>
                 (case guess_single_h6008 devices of
                    Inl err \<Rightarrow> Inl err
                  | Inr None \<Rightarrow> Inl AmbiguousAutoDetect
                  | Inr (Some t) \<Rightarrow> Inr [t])))"
proof (intro conjI impI)
  show "resolve_targets e f listing (Some []) device model grp
     = resolve_targets e f listing None device model grp"
    by (simp add: resolve_targets_def resolve_single_target_def)
  show "resolve_targets e f listing (Some []) device model grp \<noteq> Inl AmbiguousSelector"
    by (auto simp: resolve_targets_def resolve_single_target_def
          split: sum.splits option.splits json.splits if_splits
          dest: load_config_devices_error load_config_groups_error resolve_loop_error
                py_iter_error guess_single_h6008_error api_outcome_error)
  show "resolve_targets e f listing (Some []) device model grp \<noteq> Inl (UnknownNickname n)"
    by (auto simp: resolve_targets_def resolve_single_target_def
          split: sum.splits option.splits json.splits if_splits
          dest: load_config_devices_error load_config_groups_error resolve_loop_error
                py_iter_error guess_single_h6008_error api_outcome_error)
next
  assume "g \<noteq> [] \<and> load_config_devices e f = Inr devmap \<and> load_config_groups e f = Inr groups"
    and "map_of groups g = None"
  then show "resolve_targets e f listing (Some []) device model (Some g) = Inl (UnknownGroup g)"
    by (simp add: resolve_targets_def)
next
  assume "g \<noteq> [] \<and> load_config_devices e f = Inr devmap \<and> load_config_groups e f = Inr groups"
    and "map_of groups g = Some (JArr ms)"
  then show "resolve_targets e f listing (Some []) device model (Some g)
             = spec_resolve_group e devmap g ms"
    by (simp add: resolve_targets_def spec_resolve_group_def resolve_loop_spec Let_def comp_def
             split: option.splits)
next
  assume "\<not> truthy grp \<and> d \<noteq> [] \<and> m \<noteq> []"
  then show "resolve_targets e f listing (Some []) (Some d) (Some m) grp = Inr [(JStr d, JStr m)]"
    by (simp add: resolve_targets_def resolve_single_target_def)
next
  assume "\<not> truthy grp \<and> \<not> (truthy device \<and> truthy model)"
  then show "resolve_targets e f listing (Some []) device model grp
          = (case api_outcome listing of
               Inl err \<Rightarrow> Inl err
             | Inr devices \<Rightarrow>
                 (case guess_single_h6008 devices of
                    Inl err \<Rightarrow> Inl err
                  | Inr None \<Rightarrow> Inl AmbiguousAutoDetect
                  | Inr (Some t) \<Rightarrow> Inr [t]))"
    by (auto simp: resolve_targets_def resolve_single_target_def split: sum.splits option.splits)
qed

theorem empty_name_is_absent_witness:
  "resolve_targets example_env example_file Crashed (Some []) None None (Some ''room'')
      = Inr [(JStr ''dev1'', JStr ''H6008''), (JStr ''x'', JStr ''H1''), (JStr ''dev1'', JStr ''H6008'')]
   \<and> resolve_targets example_env example_file Crashed (Some []) None None (Some ''attic'')
      = Inl (UnknownGroup ''attic'')
   \<and> resolve_targets example_env example_file Crashed (Some []) (Some ''dev7'') (Some ''H6159'') None
      = Inr [(JStr ''dev7'', JStr ''H6159'')]
   \<and> resolve_targets example_env example_file (Response (account [device_a, device_c]))
        (Some []) (Some ''dev7'') None None
      = Inr [(JStr ''a'', JStr ''H6008'')]
   \<and> resolve_targets example_env example_file (Response (account [device_a, device_b]))
        (Some []) None None None
      = Inl AmbiguousAutoDetect"
proof -
  have d: "load_config_devices example_env example_file = Inr [(''lamp'', (''dev1'', ''H6008''))]"
    by (simp add: load_config_devices_def load_raw_config_def example_file_def GROUPS_KEY_def)
  have g: "load_config_groups example_env example_file =
        Inr [(''room'', JArr [JStr ''lamp'', JObj [(''model'', JStr ''H1''), (''id'', JStr ''x'')],
                              JStr ''lamp''])]"
    by (simp add: load_config_groups_def load_raw_config_def example_file_def GROUPS_KEY_def)
  have "resolve_targets example_env example_file Crashed (Some []) None None (Some ''room'')
      = Inr [(JStr ''dev1'', JStr ''H6008''), (JStr ''x'', JStr ''H1''), (JStr ''dev1'', JStr ''H6008'')]"
    using empty_name_is_absent [where e = example_env and f = example_file and listing = Crashed
        and device = None and model = None and g = "''room''"
        and devmap = "[(''lamp'', (''dev1'', ''H6008''))]"
        and groups = "[(''room'', JArr [JStr ''lamp'', JObj [(''model'', JStr ''H1''), (''id'', JStr ''x'')],
                              JStr ''lamp''])]"
        and ms = "[JStr ''lamp'', JObj [(''model'', JStr ''H1''), (''id'', JStr ''x'')], JStr ''lamp'']",
        THEN conjunct2, THEN conjunct2, THEN conjunct2, THEN conjunct1]
      d g
    by (simp add: spec_resolve_group_def)
  moreover have "resolve_targets example_env example_file Crashed (Some []) None None (Some ''attic'')
      = Inl (UnknownGroup ''attic'')"
    using empty_name_is_absent [where e = example_env and f = example_file and listing = Crashed
        and device = None and model = None and g = "''attic''"
        and devmap = "[(''lamp'', (''dev1'', ''H6008''))]"
        and groups = "[(''room'', JArr [JStr ''lamp'', JObj [(''model'', JStr ''H1''), (''id'', JStr ''x'')],
                              JStr ''lamp''])]",
        THEN conjunct2, THEN conjunct2, THEN conjunct2, THEN conjunct1]
      d g
    by simp
  moreover have "resolve_targets example_env example_file Crashed (Some []) (Some ''dev7'') (Some ''H6159'') None
      = Inr [(JStr ''dev7'', JStr ''H6159'')]"
    using empty_name_is_absent [where e = example_env and f = example_file and listing = Crashed
        and grp = None and d = "''dev7''" and m = "''H6159''",
        THEN conjunct2, THEN conjunct2, THEN conjunct2, THEN conjunct2, THEN conjunct1]
    by simp
  moreover have "resolve_targets example_env example_file (Response (account [device_a, device_c]))
        (Some []) (Some ''dev7'') None None
      = Inr [(JStr ''a'', JStr ''H6008'')]"
    using empty_name_is_absent [where e = example_env and f = example_file
        and listing = "Response (account [device_a, device_c])"
        and grp = None and device = "Some ''dev7''" and model = None,
        THEN conjunct2, THEN conjunct2, THEN conjunct2, THEN conjunct2, THEN conjunct2]
    by (simp add: guess_single_h6008_def account_def device_a_def device_c_def)
  moreover have "resolve_targets example_env example_file (Response (account [device_a, device_b]))
        (Some []) None None None
      = Inl AmbiguousAutoDetect"
    using empty_name_is_absent [where e = example_env and f = example_file
        and listing = "Response (account [device_a, device_b])"
        and grp = None and device = None and model = None,
        THEN conjunct2, THEN conjunct2, THEN conjunct2, THEN conjunct2, THEN conjunct2]
    by (simp add: guess_single_h6008_def account_def device_a_def device_b_def)
  ultimately show ?thesis by simp
qed

section \<open>Loading\<close>

text \<open>
  C7 as it is worded fails twice. A group section that is a mapping, but not of
  sequences, loads without an error: only the outer shape of the section is tested
  (\<^verbatim>\<open>isinstance(groups, dict)\<close>). And a file whose bytes are not UTF-8 does not fail
  with \<open>ConfigCorrupt\<close>: the \<open>UnicodeDecodeError\<close> that reading it raises is not the
  \<open>JSONDecodeError\<close> that \<open>_load_raw_config\<close> handles.
\<close>

theorem registry_load_counterexample:
  "load_config_groups example_env (Doc (JObj [(''_groups'', JObj [(''room'', JNum 5)])]))
     = Inr [(''room'', JNum 5)]
   \<and> load_config_devices example_env (Unreadable UnicodeDecodeError)
     = Inl (Uncaught UnicodeDecodeError)
   \<and> load_config_groups example_env (Unreadable UnicodeDecodeError)
     = Inl (Uncaught UnicodeDecodeError)"
  by (simp add: load_config_groups_def load_config_devices_def load_raw_config_def GROUPS_KEY_def)

text \<open>
  C7, as the code has it. A missing file loads as the empty nickname mapping and the
  empty group mapping. A file that is read as text and is not JSON, so that
  \<^verbatim>\<open>json.load\<close> raises \<open>JSONDecodeError\<close>, fails with \<open>ConfigCorrupt\<close>, naming the path
  and the decoder's message. A group section that is present fails with \<open>ConfigCorrupt\<close>
  when it is not a mapping, and is returned as it is when it is a mapping, whatever its
  values are.
\<close>

theorem registry_load:
  "load_config_devices e Missing = Inr []
   \<and> load_config_groups e Missing = Inr []
   \<and> load_config_devices e (Malformed msg) = Inl (ConfigCorrupt (CONFIG_PATH e) (ParseError msg))
   \<and> load_config_groups e (Malformed msg) = Inl (ConfigCorrupt (CONFIG_PATH e) (ParseError msg))
   \<and> (map_of kvs GROUPS_KEY = Some v \<longrightarrow>
        load_config_groups e (Doc (JObj kvs)) =
          (case v of JObj groups \<Rightarrow> Inr groups
                   | _ \<Rightarrow> Inl (ConfigCorrupt (CONFIG_PATH e) GroupsNotObject)))"
  by (simp add: load_config_devices_def load_config_groups_def load_raw_config_def
           split: json.splits)

theorem registry_load_witness:
  "load_config_groups example_env (Doc (JObj [(''_groups'', JArr [JStr ''lamp''])]))
     = Inl (ConfigCorrupt ''/home/u/.config/govee_devices.json'' GroupsNotObject)
   \<and> load_config_groups example_env (Doc (JObj [(''_groups'', JObj [(''room'', JStr ''lamp'')])]))
     = Inr [(''room'', JStr ''lamp'')]
   \<and> load_config_devices example_env (Malformed ''Expecting value: line 1 column 1 (char 0)'')
     = Inl (ConfigCorrupt ''/home/u/.config/govee_devices.json''
              (ParseError ''Expecting value: line 1 column 1 (char 0)''))"
  using registry_load [where e = example_env and kvs = "[(''_groups'', JArr [JStr ''lamp''])]"
                         and v = "JArr [JStr ''lamp'']"
                         and msg = "''Expecting value: line 1 column 1 (char 0)''"]
        registry_load [where e = example_env and kvs = "[(''_groups'', JObj [(''room'', JStr ''lamp'')])]"
                         and v = "JObj [(''room'', JStr ''lamp'')]"]
  by (simp add: GROUPS_KEY_def example_env_def)

section \<open>Dispatch\<close>

text \<open>
  What the loop of \<open>_apply_to_targets\<close> does while every failure of the collaborator
  reaches it as a \<open>GoveeError\<close>: it sends one request per target, in target order,
  whatever the answers are; it ends without an exception; it prints exactly one line per
  target, in target order, the result line of the target when its request was answered
  and its error line when the request failed.
\<close>

theorem dispatch_each_target:
  assumes "\<forall>h c. api h c \<noteq> Crashed"
  shows "\<exists>ls. apply_to_targets api ts cmd w
            = (None, w\<lparr>sent := sent w @ map (\<lambda>t. (fst t, snd t, cmd)) ts,
                        printed := printed w @ ls\<rparr>)
          \<and> length ls = length ts
          \<and> (\<forall>i<length ts.
               (\<forall>resp. api (sent w @ map (\<lambda>t. (fst t, snd t, cmd)) (take i ts))
                           (fst (ts ! i), snd (ts ! i), cmd) = Response resp
                  \<longrightarrow> ls ! i = ResultLine (fst (ts ! i)) (snd (ts ! i)) resp)
             \<and> (\<forall>msg. api (sent w @ map (\<lambda>t. (fst t, snd t, cmd)) (take i ts))
                           (fst (ts ! i), snd (ts ! i), cmd) = Failed msg
                  \<longrightarrow> ls ! i = ErrorLine (fst (ts ! i)) (snd (ts ! i)) msg))"
proof (induction ts arbitrary: w)
  case Nil
  show ?case by simp
next
  case (Cons t ts)
  obtain dev mdl where t: "t = (dev, mdl)" by (cases t)
  let ?call = "\<lambda>t. (fst t, snd t, cmd)"
  let ?r = "api (sent w) (dev, mdl, cmd)"
  obtain l where l: "l = (case ?r of Response resp \<Rightarrow> ResultLine dev mdl resp
                                   | Failed msg \<Rightarrow> ErrorLine dev mdl msg
                                   | Crashed \<Rightarrow> ErrorLine dev mdl [])" by simp
  let ?w1 = "w\<lparr>sent := sent w @ [(dev, mdl, cmd)], printed := printed w @ [l]\<rparr>"
  have step: "apply_to_targets api (t # ts) cmd w = apply_to_targets api ts cmd ?w1"
    using assms [rule_format, of "sent w" "(dev, mdl, cmd)"]
    by (cases ?r) (simp_all add: t l control_def)
  from Cons.IH [of ?w1] obtain ls where
    run: "apply_to_targets api ts cmd ?w1
            = (None, ?w1\<lparr>sent := sent ?w1 @ map ?call ts, printed := printed ?w1 @ ls\<rparr>)"
    and len: "length ls = length ts"
    and each: "\<forall>i<length ts.
               (\<forall>resp. api (sent ?w1 @ map ?call (take i ts)) (?call (ts ! i)) = Response resp
                  \<longrightarrow> ls ! i = ResultLine (fst (ts ! i)) (snd (ts ! i)) resp)
             \<and> (\<forall>msg. api (sent ?w1 @ map ?call (take i ts)) (?call (ts ! i)) = Failed msg
                  \<longrightarrow> ls ! i = ErrorLine (fst (ts ! i)) (snd (ts ! i)) msg)"
    by blast
  have "apply_to_targets api (t # ts) cmd w
          = (None, w\<lparr>sent := sent w @ map ?call (t # ts), printed := printed w @ (l # ls)\<rparr>)"
    using step run by (simp add: t)
  moreover have "length (l # ls) = length (t # ts)"
    using len by simp
  moreover have "\<forall>i<length (t # ts).
               (\<forall>resp. api (sent w @ map ?call (take i (t # ts))) (?call ((t # ts) ! i)) = Response resp
                  \<longrightarrow> (l # ls) ! i = ResultLine (fst ((t # ts) ! i)) (snd ((t # ts) ! i)) resp)
             \<and> (\<forall>msg. api (sent w @ map ?call (take i (t # ts))) (?call ((t # ts) ! i)) = Failed msg
                  \<longrightarrow> (l # ls) ! i = ErrorLine (fst ((t # ts) ! i)) (snd ((t # ts) ! i)) msg)"
  proof (intro allI impI)
    fix i assume "i < length (t # ts)"
    show "(\<forall>resp. api (sent w @ map ?call (take i (t # ts))) (?call ((t # ts) ! i)) = Response resp
                  \<longrightarrow> (l # ls) ! i = ResultLine (fst ((t # ts) ! i)) (snd ((t # ts) ! i)) resp)
             \<and> (\<forall>msg. api (sent w @ map ?call (take i (t # ts))) (?call ((t # ts) ! i)) = Failed msg
                  \<longrightarrow> (l # ls) ! i = ErrorLine (fst ((t # ts) ! i)) (snd ((t # ts) ! i)) msg)"
    proof (cases i)
      case 0
      then show ?thesis by (simp add: t l)
    next
      case (Suc j)
      with \<open>i < length (t # ts)\<close> have "j < length ts" by simp
      with each [rule_format, of j] show ?thesis by (simp add: Suc t)
    qed
  qed
  ultimately show ?case by blast
qed


theorem dispatch_each_target_witness:
  "apply_to_targets example_api
      [(JStr ''a'', JStr ''H6008''), (JStr ''b'', JStr ''H6008''), (JStr ''c'', JStr ''H6159'')]
      turn_on \<lparr>sent = [], printed = []\<rparr>
    = (None,
       \<lparr>sent = [(JStr ''a'', JStr ''H6008'', turn_on), (JStr ''b'', JStr ''H6008'', turn_on),
                (JStr ''c'', JStr ''H6159'', turn_on)],
        printed =
          [ResultLine (JStr ''a'') (JStr ''H6008'')
             (JObj [(''code'', JNum 200), (''message'', JStr ''Success'')]),
           ErrorLine (JStr ''b'') (JStr ''H6008'') ''HTTP 400: device offline'',
           ResultLine (JStr ''c'') (JStr ''H6159'')
             (JObj [(''code'', JNum 200), (''message'', JStr ''Success'')])]\<rparr>)"
proof -
  have never: "\<forall>h c. example_api h c \<noteq> Crashed"
    by (simp add: example_api_def)
  show ?thesis
    using dispatch_each_target [OF never,
        where ts = "[(JStr ''a'', JStr ''H6008''), (JStr ''b'', JStr ''H6008''), (JStr ''c'', JStr ''H6159'')]"
          and cmd = turn_on and w = "\<lparr>sent = [], printed = []\<rparr>"]
    by (simp add: example_api_def control_def)
qed

text \<open>
  C8. Dispatch is to send one request per target and to turn the failure of a request
  into the error line of its target, without effect on the targets after it. The loop
  catches \<open>GoveeError\<close> only, and \<open>api_request\<close> turns into \<open>GoveeError\<close> the errors
  of the HTTP status and of the connection (\<open>HTTPError\<close>, \<open>URLError\<close>), not the
  time-out or the reset of a connection while the response is read. On a network where
  the request for the second of three targets ends so, the exception ends the dispatch:
  the second target gets no line, and the third is never sent a request.
\<close>

theorem dispatch_aborts_on_crash:
  "apply_to_targets crashing_api
      [(JStr ''a'', JStr ''H6008''), (JStr ''b'', JStr ''H6008''), (JStr ''c'', JStr ''H6159'')]
      turn_on \<lparr>sent = [], printed = []\<rparr>
    = (Some (Uncaught OtherException),
       \<lparr>sent = [(JStr ''a'', JStr ''H6008'', turn_on), (JStr ''b'', JStr ''H6008'', turn_on)],
        printed =
          [ResultLine (JStr ''a'') (JStr ''H6008'')
             (JObj [(''code'', JNum 200), (''message'', JStr ''Success'')])]\<rparr>)"
  by (simp add: crashing_api_def control_def)

section \<open>Sorting an association list by key\<close>

lemma map_of_insort_key:
  "map_of (insort_key fst kv xs) = (map_of xs)(fst kv \<mapsto> snd kv)"
proof (induction xs)
  case Nil
  show ?case by simp
next
  case (Cons x xs)
  show ?case
  proof (cases "fst kv \<le> fst x")
    case True
    then show ?thesis by (auto simp: fun_eq_iff)
  next
    case False
    then have "fst x \<noteq> fst kv" by auto
    with False Cons.IH show ?thesis by (auto simp: fun_eq_iff)
  qed
qed

lemma map_of_sort_key: "map_of (sort_key fst xs) = map_of xs"
  by (induction xs) (simp_all add: map_of_insort_key)

lemma insort_key_map:
  assumes "\<And>x. fst (f x) = fst x"
  shows "insort_key fst (f kv) (map f xs) = map f (insort_key fst kv xs)"
  by (induction xs) (simp_all add: assms)

lemma sort_key_map:
  assumes "\<And>x. fst (f x) = fst x"
  shows "sort_key fst (map f xs) = map f (sort_key fst xs)"
  by (induction xs) (simp_all add: insort_key_map [of f, OF assms])

lemma sort_key_twice: "sort_key fst (sort_key fst xs) = sort_key fst xs"
  by (simp add: sort_key_id_if_sorted)

lemma sort_keys_JObj:
  "sort_keys (JObj kvs) = JObj (map (map_prod id sort_keys) (sort_key fst kvs))"
  by (simp add: sort_key_map [of "map_prod id sort_keys"])

lemma sort_keys_idem: "sort_keys (sort_keys v) = sort_keys v"
proof (induction v)
  case (JArr xs)
  then show ?case by simp
next
  case (JObj kvs)
  have "map (map_prod id sort_keys) (map (map_prod id sort_keys) (sort_key fst kvs))
          = map (map_prod id sort_keys) (sort_key fst kvs)"
    using JObj by (auto simp: map_prod_def split: prod.splits)
  then show ?case
    unfolding sort_keys_JObj sort_key_twice sort_key_map [of "map_prod id sort_keys", simplified]
    by (simp add: sort_key_twice)
qed simp_all


section \<open>What a saved file loads as\<close>

lemma update_fresh: "k \<notin> fst ` set xs \<Longrightarrow> AList.update k v xs = xs @ [(k, v)]"
  by (induction xs) auto

lemma devices_loop_distinct:
  assumes "distinct (map fst kvs)" and "fst ` set out \<inter> fst ` set kvs = {}"
  shows "devices_loop e kvs out = out @ map (nickname_entry e) (filter is_nickname_entry kvs)"
  using assms
proof (induction kvs arbitrary: out)
  case Nil
  show ?case by simp
next
  case (Cons kv kvs)
  obtain k v where kv: "kv = (k, v)" by (cases kv)
  from Cons.prems have fresh: "k \<notin> fst ` set out" and d: "distinct (map fst kvs)"
    and k: "k \<notin> fst ` set kvs" and disj: "fst ` set out \<inter> fst ` set kvs = {}"
    by (auto simp: kv)
  show ?case
  proof (cases "is_nickname_entry kv")
    case False
    then have "devices_loop e (kv # kvs) out = devices_loop e kvs out"
      by (auto simp: kv is_nickname_entry_def split: json.splits option.splits)
    with False Cons.IH [OF d disj] show ?thesis by simp
  next
    case True
    then have "devices_loop e (kv # kvs) out
                 = devices_loop e kvs (AList.update k (snd (nickname_entry e kv)) out)"
      by (auto simp: kv is_nickname_entry_def nickname_entry_def split: json.splits option.splits)
    moreover have "AList.update k (snd (nickname_entry e kv)) out = out @ [nickname_entry e kv]"
      using fresh by (simp add: update_fresh kv nickname_entry_def)
    moreover have "fst ` set (out @ [nickname_entry e kv]) \<inter> fst ` set kvs = {}"
      using disj k by (auto simp: kv nickname_entry_def)
    ultimately show ?thesis
      using True Cons.IH [OF d, of "out @ [nickname_entry e kv]"] by simp
  qed
qed

lemma sort_keys_devref_json: "sort_keys (devref_json d) = devref_json d"
  by (simp add: devref_json_def)

lemma map_of_map_prod: "map_of (map (map_prod id g) xs) k = map_option g (map_of xs k)"
  by (induction xs) auto

lemma saved_entries:
  "map (nickname_entry e) (filter is_nickname_entry
       (map (map_prod id sort_keys) (map (map_prod id devref_json) xs)))
     = filter (\<lambda>kv. fst kv \<noteq> GROUPS_KEY) xs"
  by (induction xs)
     (auto simp: is_nickname_entry_def nickname_entry_def devref_json_def)

lemma saved_entries_update:
  "map (nickname_entry e) (filter is_nickname_entry
       (map (map_prod id sort_keys) (AList.update GROUPS_KEY G (map (map_prod id devref_json) xs))))
     = filter (\<lambda>kv. fst kv \<noteq> GROUPS_KEY) xs"
proof (induction xs)
  case Nil
  show ?case by (simp add: is_nickname_entry_def)
next
  case (Cons x xs)
  obtain k d where x: "x = (k, d)" by (cases x)
  show ?case
  proof (cases "k = GROUPS_KEY")
    case True
    have 1: "AList.update GROUPS_KEY G (map (map_prod id devref_json) (x # xs))
               = (GROUPS_KEY, G) # map (map_prod id devref_json) xs"
      using True by (simp add: x)
    have 2: "map (map_prod id sort_keys) ((GROUPS_KEY, G) # map (map_prod id devref_json) xs)
               = (GROUPS_KEY, sort_keys G) # map (map_prod id sort_keys) (map (map_prod id devref_json) xs)"
      by simp
    have 3: "filter is_nickname_entry ((GROUPS_KEY, sort_keys G) # ys) = filter is_nickname_entry ys" for ys
      by (simp add: is_nickname_entry_def)
    have 4: "filter (\<lambda>kv. fst kv \<noteq> GROUPS_KEY) (x # xs) = filter (\<lambda>kv. fst kv \<noteq> GROUPS_KEY) xs"
      using True by (simp add: x)
    show ?thesis
      unfolding 1 2 3 4 by (rule saved_entries)
  next
    case False
    have "is_nickname_entry (k, sort_keys (devref_json d))"
      using False by (simp add: is_nickname_entry_def devref_json_def)
    moreover have "nickname_entry e (k, sort_keys (devref_json d)) = (k, d)"
      by (simp add: nickname_entry_def devref_json_def)
    ultimately show ?thesis
      using False Cons.IH by (simp add: x)
  qed
qed

lemma map_fst_map_prod: "map fst (map (map_prod id g) xs) = map fst xs"
  by (induction xs) auto

lemma distinct_fst_sort_key: "distinct (map fst (sort_key fst xs)) = distinct (map fst xs)"
  by (simp add: distinct_map)

lemma fst_nickname_entry: "fst (nickname_entry e kv) = fst kv"
  by (simp add: nickname_entry_def)

lemma load_devices_saved:
  assumes "distinct (map fst devmap)"
  shows "load_config_devices e (save_full_config devmap groups)
           = Inr (filter (\<lambda>kv. fst kv \<noteq> GROUPS_KEY) (sort_key fst devmap))"
proof -
  let ?P = "AList.update GROUPS_KEY (JObj groups) (map (map_prod id devref_json) (sort_key fst devmap))"
  let ?S = "sort_key fst (map (map_prod id sort_keys) ?P)"
  have "distinct (map fst (map (map_prod id devref_json) (sort_key fst devmap)))"
    using assms by (simp only: map_fst_map_prod distinct_fst_sort_key)
  then have "distinct (map fst ?P)"
    by (rule distinct_update)
  then have dS: "distinct (map fst ?S)"
    by (simp only: map_fst_map_prod distinct_fst_sort_key)
  have "load_config_devices e (save_full_config devmap groups) = Inr (devices_loop e ?S [])"
    by (simp add: load_config_devices_def save_full_config_def load_raw_config_def Let_def)
  also have "devices_loop e ?S [] = map (nickname_entry e) (filter is_nickname_entry ?S)"
    using devices_loop_distinct [OF dS, of "[]" e] by simp
  also have "\<dots> = sort_key fst (map (nickname_entry e)
                       (filter is_nickname_entry (map (map_prod id sort_keys) ?P)))"
    by (simp only: filter_sort sort_key_map [of "nickname_entry e", OF fst_nickname_entry])
  also have "\<dots> = sort_key fst (filter (\<lambda>kv. fst kv \<noteq> GROUPS_KEY) (sort_key fst devmap))"
    by (simp only: saved_entries_update)
  also have "\<dots> = filter (\<lambda>kv. fst kv \<noteq> GROUPS_KEY) (sort_key fst devmap)"
    by (simp add: filter_sort [symmetric] sort_key_twice)
  finally show ?thesis .
qed

lemma load_groups_saved:
  "load_config_groups e (save_full_config devmap groups)
     = Inr (map (map_prod id sort_keys) (sort_key fst groups))"
proof -
  let ?P = "AList.update GROUPS_KEY (JObj groups) (map (map_prod id devref_json) (sort_key fst devmap))"
  have saved: "save_full_config devmap groups = Doc (JObj (sort_key fst (map (map_prod id sort_keys) ?P)))"
    by (simp add: save_full_config_def Let_def)
  have look: "map_of (sort_key fst (map (map_prod id sort_keys) ?P)) GROUPS_KEY
          = Some (JObj (map (map_prod id sort_keys) (sort_key fst groups)))"
    by (simp add: map_of_sort_key map_of_map_prod update_conv' sort_keys_JObj del: sort_keys.simps)
  show ?thesis
    unfolding saved by (simp add: load_config_groups_def load_raw_config_def look)
qed

section \<open>The nickname directory that a file loads as\<close>

lemma devices_loop_keys:
  "distinct (map fst out) \<Longrightarrow> GROUPS_KEY \<notin> fst ` set out \<Longrightarrow>
     distinct (map fst (devices_loop e kvs out)) \<and> GROUPS_KEY \<notin> fst ` set (devices_loop e kvs out)"
proof (induction kvs arbitrary: out)
  case Nil
  then show ?case by simp
next
  case (Cons kv kvs)
  obtain k v where kv: "kv = (k, v)" by (cases kv)
  have upd: "distinct (map fst (AList.update k d out)) \<and> GROUPS_KEY \<notin> fst ` set (AList.update k d out)"
    if "k \<noteq> GROUPS_KEY" for d
    using Cons.prems that by (simp add: distinct_update dom_update)
  show ?case
    using Cons.IH [OF Cons.prems] Cons.IH upd
    by (auto simp: kv split: json.splits option.splits)
qed

lemma loaded_devmap:
  assumes "load_config_devices e f = Inr devmap"
  shows "distinct (map fst devmap)" and "GROUPS_KEY \<notin> fst ` set devmap"
  using assms devices_loop_keys [of "[]" e]
  by (auto simp: load_config_devices_def split: sum.splits json.splits)

section \<open>Equality by value\<close>

lemma py_eq_sort_keys: "distinct_keys v \<Longrightarrow> py_eq (sort_keys v) v"
proof (induction v)
  case (JArr xs)
  then show ?case
    by (simp add: list_all2_map1 list_all2_same list_all_iff)
next
  case (JObj kvs)
  have "case map_of kvs (fst kv) of None \<Rightarrow> False | Some w \<Rightarrow> py_eq (snd kv) w"
    if "kv \<in> set (map (map_prod id sort_keys) kvs)" for kv
  proof -
    from that obtain k v where kv: "kv = (k, sort_keys v)" and mem: "(k, v) \<in> set kvs"
      by auto
    from JObj.prems mem have "map_of kvs k = Some v" and "distinct_keys v"
      by (auto simp: list_all_iff)
    moreover from JObj.IH mem \<open>distinct_keys v\<close> have "py_eq (sort_keys v) v"
      by fastforce
    ultimately show ?thesis by (simp add: kv)
  qed
  then show ?case
    by (simp add: list_all_iff)
qed simp_all

lemma py_eq_sorted_devmap:
  assumes "distinct (map fst devmap)"
  shows "py_eq (devmap_json (sort_key fst devmap)) (devmap_json devmap)"
proof -
  have "case map_of (map (map_prod id devref_json) devmap) (fst kv) of
          None \<Rightarrow> False | Some w \<Rightarrow> py_eq (snd kv) w"
    if "kv \<in> set (map (map_prod id devref_json) devmap)" for kv
  proof -
    from that obtain k d where kv: "kv = (k, devref_json d)" and mem: "(k, d) \<in> set devmap"
      by auto
    from assms mem have "map_of devmap k = Some d" by simp
    then show ?thesis
      by (simp add: kv map_of_map_prod devref_json_def)
  qed
  then show ?thesis
    by (simp add: devmap_json_def list_all_iff)
qed


section \<open>Round trip\<close>

lemma filter_no_groups_key:
  "GROUPS_KEY \<notin> fst ` set xs \<Longrightarrow> filter (\<lambda>kv. fst kv \<noteq> GROUPS_KEY) xs = xs"
  by (induction xs) auto

lemma map_prod_update:
  "map (map_prod id g) (AList.update k v xs) = AList.update k (g v) (map (map_prod id g) xs)"
  by (induction xs) auto

lemma sort_keys_payload:
  "sort_keys (JObj (AList.update GROUPS_KEY G P))
     = JObj (sort_key fst (AList.update GROUPS_KEY (sort_keys G) (map (map_prod id sort_keys) P)))"
  by (simp only: sort_keys.simps map_prod_update)

lemma save_sorted:
  "save_full_config (sort_key fst devmap) (map (map_prod id sort_keys) (sort_key fst groups))
     = save_full_config devmap groups"
proof -
  have "sort_keys (JObj (map (map_prod id sort_keys) (sort_key fst groups))) = sort_keys (JObj groups)"
    using sort_keys_idem [of "JObj groups"] by (simp only: sort_keys_JObj)
  then show ?thesis
    by (simp only: save_full_config_def Let_def sort_key_twice sort_keys_payload)
qed

text \<open>
  C2. For a registry whose nickname directory has distinct keys, none of them the
  reserved key, and whose group mapping is a value Python can hold (so also with groups
  of mixed and repeated members): the saved file loads as the nickname directory in
  sorted order and as the group mapping with the keys of every dict in sorted order; both
  are equal by value to what was saved; and saving what was loaded writes the same file
  again.
\<close>

theorem save_load_roundtrip:
  assumes "distinct (map fst devmap)"
    and "GROUPS_KEY \<notin> fst ` set devmap"
    and "distinct_keys (JObj groups)"
  shows "load_config_devices e (save_full_config devmap groups) = Inr (sort_key fst devmap)
       \<and> load_config_groups e (save_full_config devmap groups)
           = Inr (map (map_prod id sort_keys) (sort_key fst groups))
       \<and> py_eq (devmap_json (sort_key fst devmap)) (devmap_json devmap)
       \<and> py_eq (JObj (map (map_prod id sort_keys) (sort_key fst groups))) (JObj groups)
       \<and> save_full_config (sort_key fst devmap) (map (map_prod id sort_keys) (sort_key fst groups))
           = save_full_config devmap groups"
proof (intro conjI)
  show "load_config_devices e (save_full_config devmap groups) = Inr (sort_key fst devmap)"
    using assms(2) by (simp add: load_devices_saved [OF assms(1)] filter_no_groups_key)
  show "load_config_groups e (save_full_config devmap groups)
           = Inr (map (map_prod id sort_keys) (sort_key fst groups))"
    by (rule load_groups_saved)
  show "py_eq (devmap_json (sort_key fst devmap)) (devmap_json devmap)"
    by (rule py_eq_sorted_devmap [OF assms(1)])
  show "py_eq (JObj (map (map_prod id sort_keys) (sort_key fst groups))) (JObj groups)"
    using py_eq_sort_keys [OF assms(3)] by (simp only: sort_keys_JObj)
  show "save_full_config (sort_key fst devmap) (map (map_prod id sort_keys) (sort_key fst groups))
           = save_full_config devmap groups"
    by (rule save_sorted)
qed


theorem save_load_roundtrip_witness:
  "load_config_devices example_env (save_full_config example_devmap example_groups)
      = Inr [(''desk'', (''dev2'', ''H6008'')), (''lamp'', (''dev1'', ''H6008''))]
   \<and> load_config_groups example_env (save_full_config example_devmap example_groups)
      = Inr [(''room'', JArr [JStr ''lamp'',
                              JObj [(''id'', JStr ''x''), (''model'', JStr ''H1'')],
                              JStr ''lamp''])]
   \<and> py_eq (JObj [(''room'', JArr [JStr ''lamp'',
                                     JObj [(''id'', JStr ''x''), (''model'', JStr ''H1'')],
                                     JStr ''lamp''])])
            (JObj example_groups)"
proof -
  have d: "distinct (map fst example_devmap)"
    by (simp add: example_devmap_def)
  have g: "GROUPS_KEY \<notin> fst ` set example_devmap"
    by (simp add: example_devmap_def GROUPS_KEY_def)
  have k: "distinct_keys (JObj example_groups)"
    by (simp add: example_groups_def)
  have s1: "sort_key fst example_devmap
              = [(''desk'', (''dev2'', ''H6008'')), (''lamp'', (''dev1'', ''H6008''))]"
    by (simp add: example_devmap_def)
  have s2: "map (map_prod id sort_keys) (sort_key fst example_groups)
              = [(''room'', JArr [JStr ''lamp'',
                              JObj [(''id'', JStr ''x''), (''model'', JStr ''H1'')],
                              JStr ''lamp''])]"
    by (simp add: example_groups_def)
  show ?thesis
    using save_load_roundtrip [OF d g k, of example_env] by (simp only: s1 s2)
qed

section \<open>The reserved key\<close>

text \<open>
  C10. No file loads with a nickname named \<open>_groups\<close>. Adding a nickname of that
  name succeeds and saves; in the file it writes the key \<open>_groups\<close> holds the group
  mapping, and the nickname directory it loads as is the one from before the add, so it
  still has no binding for \<open>_groups\<close>.
\<close>

theorem reserved_nickname_lost:
  assumes "load_config_devices e f = Inr devmap"
    and "load_config_groups e f = Inr groups"
  shows "map_of devmap GROUPS_KEY = None
       \<and> names_add e f GROUPS_KEY device model
           = (None, save_full_config (AList.update GROUPS_KEY (device, model) devmap) groups)
       \<and> load_config_groups e (save_full_config (AList.update GROUPS_KEY (device, model) devmap) groups)
           = Inr (map (map_prod id sort_keys) (sort_key fst groups))
       \<and> load_config_devices e (save_full_config (AList.update GROUPS_KEY (device, model) devmap) groups)
           = Inr (sort_key fst devmap)
       \<and> map_of (sort_key fst devmap) GROUPS_KEY = None"
proof -
  note dm = loaded_devmap [OF assms(1)]
  have absent: "map_of devmap GROUPS_KEY = None"
    using dm(2) by (simp add: map_of_eq_None_iff)
  have d': "distinct (map fst (AList.update GROUPS_KEY (device, model) devmap))"
    using dm(1) by (rule distinct_update)
  have u: "AList.update GROUPS_KEY (device, model) devmap = devmap @ [(GROUPS_KEY, (device, model))]"
    using dm(2) by (rule update_fresh)
  have "filter (\<lambda>kv. fst kv \<noteq> GROUPS_KEY) (sort_key fst (AList.update GROUPS_KEY (device, model) devmap))
          = sort_key fst (filter (\<lambda>kv. fst kv \<noteq> GROUPS_KEY) (devmap @ [(GROUPS_KEY, (device, model))]))"
    by (simp only: filter_sort u)
  also have "\<dots> = sort_key fst devmap"
    using dm(2) by (simp add: filter_no_groups_key)
  finally have reload: "load_config_devices e (save_full_config (AList.update GROUPS_KEY (device, model) devmap) groups)
           = Inr (sort_key fst devmap)"
    by (simp only: load_devices_saved [OF d'])
  have add: "names_add e f GROUPS_KEY device model
           = (None, save_full_config (AList.update GROUPS_KEY (device, model) devmap) groups)"
    using assms by (simp add: names_add_def)
  show ?thesis
    using absent add reload by (simp add: load_groups_saved map_of_sort_key)
qed

theorem reserved_nickname_lost_witness:
  "load_config_devices example_env example_file = Inr [(''lamp'', (''dev1'', ''H6008''))]
   \<and> fst (names_add example_env example_file ''_groups'' ''dev9'' ''H6008'') = None
   \<and> load_config_devices example_env (snd (names_add example_env example_file ''_groups'' ''dev9'' ''H6008''))
       = Inr [(''lamp'', (''dev1'', ''H6008''))]"
proof -
  have d: "load_config_devices example_env example_file = Inr [(''lamp'', (''dev1'', ''H6008''))]"
    by (simp add: load_config_devices_def load_raw_config_def example_file_def GROUPS_KEY_def)
  have g: "load_config_groups example_env example_file =
        Inr [(''room'', JArr [JStr ''lamp'', JObj [(''model'', JStr ''H1''), (''id'', JStr ''x'')],
                              JStr ''lamp''])]"
    by (simp add: load_config_groups_def load_raw_config_def example_file_def GROUPS_KEY_def)
  show ?thesis
    using reserved_nickname_lost [OF d g, of "''dev9''" "''H6008''"] d
    by (simp add: GROUPS_KEY_def)
qed

section \<open>Looking a group up in a saved file\<close>

lemma map_of_saved_groups:
  "map_of (map (map_prod id sort_keys) (sort_key fst groups)) g = map_option sort_keys (map_of groups g)"
  by (simp add: map_of_map_prod map_of_sort_key)

lemma sort_keys_is_JStr: "sort_keys v = JStr n \<longleftrightarrow> v = JStr n"
  by (cases v) auto

lemma JStr_is_sort_keys: "JStr n = sort_keys v \<longleftrightarrow> v = JStr n"
  by (cases v) auto

section \<open>Removing a nickname\<close>

lemma prune_groups_lookup:
  "prune_groups n groups = Inr pruned \<Longrightarrow>
     map_of pruned g
       = map_option (\<lambda>v. JArr (filter (\<lambda>m. m \<noteq> JStr n) (projr (py_iter v)))) (map_of groups g)"
proof (induction groups arbitrary: pruned)
  case Nil
  then show ?case by auto
next
  case (Cons kv groups)
  obtain k v where kv: "kv = (k, v)" by (cases kv)
  from Cons.prems obtain ms rest where it: "py_iter v = Inr ms"
    and rest: "prune_groups n groups = Inr rest"
    and pruned: "pruned = (k, JArr (filter (\<lambda>m. m \<noteq> JStr n) ms)) # rest"
    by (auto simp: kv split: sum.splits)
  show ?case
    using Cons.IH [OF rest] by (simp add: kv pruned it)
qed

lemma prune_groups_lists:
  "\<forall>v \<in> snd ` set groups. \<exists>ms. v = JArr ms \<Longrightarrow> \<exists>pruned. prune_groups n groups = Inr pruned"
  by (induction groups) auto

text \<open>
  C4. With a file that loads, a nickname \<open>n\<close> that is bound in it and groups stored
  as lists: removing \<open>n\<close> ends without an exception, and in the file it leaves the
  binding of \<open>n\<close> is gone while every other binding is as before; every group keeps
  its members other than the string \<open>n\<close>, inline devices included, in their order
  (each re-read with its keys in sorted order); no group is added; and no group holds the
  string \<open>n\<close> any more.
\<close>

theorem remove_nickname_prunes:
  assumes "load_config_devices e f = Inr devmap"
    and "load_config_groups e f = Inr groups"
    and "map_of devmap n \<noteq> None"
    and "\<forall>v \<in> snd ` set groups. \<exists>ms. v = JArr ms"
  shows "\<exists>devmap' groups'.
           fst (names_remove e f n) = None
         \<and> load_config_devices e (snd (names_remove e f n)) = Inr devmap'
         \<and> load_config_groups e (snd (names_remove e f n)) = Inr groups'
         \<and> map_of devmap' = (map_of devmap)(n := None)
         \<and> (\<forall>g ms. map_of groups g = Some (JArr ms) \<longrightarrow>
                map_of groups' g = Some (JArr (map sort_keys (filter (\<lambda>m. m \<noteq> JStr n) ms))))
         \<and> (\<forall>g. map_of groups g = None \<longrightarrow> map_of groups' g = None)
         \<and> (\<forall>g ms'. map_of groups' g = Some (JArr ms') \<longrightarrow> JStr n \<notin> set ms')"
proof -
  note dm = loaded_devmap [OF assms(1)]
  from prune_groups_lists [OF assms(4)] obtain pruned where pruned: "prune_groups n groups = Inr pruned"
    by blast
  let ?dm = "AList.delete n devmap"
  let ?f = "save_full_config ?dm pruned"
  let ?gs = "map (map_prod id sort_keys) (sort_key fst pruned)"
  have run: "names_remove e f n = (None, ?f)"
    using assms(1-3) pruned by (auto simp: names_remove_def)
  have d: "distinct (map fst ?dm)"
    using dm(1) by (rule distinct_delete)
  have "GROUPS_KEY \<notin> fst ` set ?dm"
    using dm(2) dom_delete_subset [of n devmap] by auto
  then have devices: "load_config_devices e ?f = Inr (sort_key fst ?dm)"
    by (simp add: load_devices_saved [OF d] filter_no_groups_key)
  have groups: "load_config_groups e ?f = Inr ?gs"
    by (rule load_groups_saved)
  have lookup: "map_of ?gs g
       = map_option (\<lambda>v. JArr (map sort_keys (filter (\<lambda>m. m \<noteq> JStr n) (projr (py_iter v)))))
           (map_of groups g)" for g
    by (simp add: map_of_saved_groups prune_groups_lookup [OF pruned] option.map_comp comp_def)
  have "map_of (sort_key fst ?dm) = (map_of devmap)(n := None)"
    by (simp add: map_of_sort_key delete_conv')
  moreover have "\<forall>g ms. map_of groups g = Some (JArr ms) \<longrightarrow>
                map_of ?gs g = Some (JArr (map sort_keys (filter (\<lambda>m. m \<noteq> JStr n) ms)))"
    by (simp add: lookup)
  moreover have "\<forall>g. map_of groups g = None \<longrightarrow> map_of ?gs g = None"
    by (simp add: lookup)
  moreover have "\<forall>g ms'. map_of ?gs g = Some (JArr ms') \<longrightarrow> JStr n \<notin> set ms'"
    by (auto simp: lookup JStr_is_sort_keys)
  ultimately show ?thesis
    using run devices groups by (intro exI [of _ "sort_key fst ?dm"] exI [of _ ?gs]) simp
qed


lemma example_home_devices:
  "load_config_devices example_env example_home
     = Inr [(''lamp'', (''dev1'', ''H6008'')), (''desk'', (''dev2'', ''H6008''))]"
  by (simp add: load_config_devices_def load_raw_config_def example_home_def GROUPS_KEY_def)

lemma example_home_groups:
  "load_config_groups example_env example_home
     = Inr [(''room'', JArr [JStr ''lamp'',
                             JObj [(''model'', JStr ''H6008''), (''id'', JStr ''dev1'')],
                             JStr ''desk'',
                             JStr ''lamp'']),
            (''hall'', JArr [JStr ''desk''])]"
  by (simp add: load_config_groups_def load_raw_config_def example_home_def GROUPS_KEY_def)

theorem remove_nickname_prunes_witness:
  "fst (names_remove example_env example_home ''lamp'') = None
   \<and> load_config_devices example_env (snd (names_remove example_env example_home ''lamp''))
       = Inr [(''desk'', (''dev2'', ''H6008''))]
   \<and> load_config_groups example_env (snd (names_remove example_env example_home ''lamp''))
       = Inr [(''hall'', JArr [JStr ''desk'']),
              (''room'', JArr [JObj [(''id'', JStr ''dev1''), (''model'', JStr ''H6008'')],
                               JStr ''desk''])]"
proof -
  have present: "map_of [(''lamp'', (''dev1'', ''H6008'')), (''desk'', (''dev2'', ''H6008''))] ''lamp'' \<noteq> None"
    by simp
  have lists: "\<forall>v \<in> snd ` set [(''room'', JArr [JStr ''lamp'',
                             JObj [(''model'', JStr ''H6008''), (''id'', JStr ''dev1'')],
                             JStr ''desk'',
                             JStr ''lamp'']),
            (''hall'', JArr [JStr ''desk''])]. \<exists>ms. v = JArr ms"
    by simp
  have run: "names_remove example_env example_home ''lamp''
          = (None, save_full_config [(''desk'', (''dev2'', ''H6008''))]
                     [(''room'', JArr [JObj [(''model'', JStr ''H6008''), (''id'', JStr ''dev1'')],
                                       JStr ''desk'']),
                      (''hall'', JArr [JStr ''desk''])])"
    by (simp add: names_remove_def example_home_devices example_home_groups)
  have d: "distinct (map fst [(''desk'', (''dev2'', ''H6008''))])"
    by simp
  show ?thesis
    using remove_nickname_prunes [OF example_home_devices example_home_groups present lists]
    by (simp add: run load_devices_saved [OF d] load_groups_saved GROUPS_KEY_def)
qed

section \<open>Adding members to a group\<close>

lemma parse_pairs_loop_ok:
  "\<forall>p \<in> set ps. CHR '':'' \<in> set p \<Longrightarrow> parse_pairs_loop ps out = Inr (out @ map split_pair ps)"
  by (induction ps arbitrary: out) auto

lemma parse_pairs_ok:
  "\<forall>p \<in> set (or_empty pairs). CHR '':'' \<in> set p \<Longrightarrow>
     parse_pairs pairs = Inr (map split_pair (or_empty pairs))"
  by (simp add: parse_pairs_def parse_pairs_loop_ok)

lemma sort_keys_split_pair: "sort_keys (split_pair p) = split_pair p"
  by (simp add: split_pair_def)

lemma sort_keys_new_members:
  "map sort_keys (ms @ map JStr ns @ map split_pair prs)
     = map sort_keys ms @ map JStr ns @ map split_pair prs"
  by (simp add: sort_keys_split_pair)

text \<open>
  What \<open>groups_add_members\<close> does with a file that loads, a group stored as a list and
  pairs that all hold a colon: if no nickname and no pair is given, it fails with
  \<open>NoMembersGiven\<close>; if one of the nicknames given is not bound, it fails with
  \<open>UnknownNickname\<close> for such a nickname; in both cases the file is the one it found. If
  every nickname given is bound and something is given, it ends without an exception and
  the file it leaves loads with the same nicknames and with the group holding its former
  members, then the nicknames given, then what \<open>split_pair\<close> makes of the pairs given,
  each in the order given and repetitions kept; the other groups are as before.
\<close>

theorem add_members:
  assumes "load_config_devices e f = Inr devmap"
    and "load_config_groups e f = Inr groups"
    and "map_of groups g = Some (JArr ms)"
    and "\<forall>p \<in> set (or_empty pairs). CHR '':'' \<in> set p"
  shows "(or_empty names = [] \<and> or_empty pairs = [] \<longrightarrow>
            groups_add_members e f g names pairs = (Some NoMembersGiven, f))
       \<and> ((\<exists>n \<in> set (or_empty names). map_of devmap n = None) \<longrightarrow>
            (\<exists>n \<in> set (or_empty names). map_of devmap n = None
               \<and> groups_add_members e f g names pairs = (Some (UnknownNickname n), f)))
       \<and> ((\<forall>n \<in> set (or_empty names). map_of devmap n \<noteq> None)
            \<and> \<not> (or_empty names = [] \<and> or_empty pairs = []) \<longrightarrow>
            (\<exists>groups'.
               fst (groups_add_members e f g names pairs) = None
             \<and> load_config_devices e (snd (groups_add_members e f g names pairs))
                 = Inr (sort_key fst devmap)
             \<and> load_config_groups e (snd (groups_add_members e f g names pairs)) = Inr groups'
             \<and> map_of groups' g
                 = Some (JArr (map sort_keys ms @ map JStr (or_empty names)
                                @ map split_pair (or_empty pairs)))
             \<and> (\<forall>g'. g' \<noteq> g \<longrightarrow> map_of groups' g' = map_option sort_keys (map_of groups g'))))"
proof (intro conjI impI)
  note pp = parse_pairs_ok [OF assms(4)]
  note dm = loaded_devmap [OF assms(1)]
  {
    assume "or_empty names = [] \<and> or_empty pairs = []"
    then show "groups_add_members e f g names pairs = (Some NoMembersGiven, f)"
      using assms(1-3) by (simp add: groups_add_members_def pp)
  next
    assume "\<exists>n \<in> set (or_empty names). map_of devmap n = None"
    then obtain n where found: "find (\<lambda>n. map_of devmap n = None) (or_empty names) = Some n"
      by (cases "find (\<lambda>n. map_of devmap n = None) (or_empty names)") (auto simp: find_None_iff)
    then have n: "n \<in> set (or_empty names)" "map_of devmap n = None"
      by (auto simp: find_Some_iff)
    then have "or_empty names \<noteq> []" by auto
    then have "groups_add_members e f g names pairs = (Some (UnknownNickname n), f)"
      using assms(1-3) found by (simp add: groups_add_members_def pp)
    with n show "\<exists>n \<in> set (or_empty names). map_of devmap n = None
               \<and> groups_add_members e f g names pairs = (Some (UnknownNickname n), f)"
      by blast
  next
    assume ok: "(\<forall>n \<in> set (or_empty names). map_of devmap n \<noteq> None)
            \<and> \<not> (or_empty names = [] \<and> or_empty pairs = [])"
    let ?X = "ms @ map JStr (or_empty names) @ map split_pair (or_empty pairs)"
    let ?gs = "AList.update g (JArr ?X) groups"
    let ?gs' = "map (map_prod id sort_keys) (sort_key fst ?gs)"
    from ok have none: "find (\<lambda>n. map_of devmap n = None) (or_empty names) = None"
      by (simp add: find_None_iff)
    have run: "groups_add_members e f g names pairs = (None, save_full_config devmap ?gs)"
      using assms(1-3) ok none by (auto simp: groups_add_members_def pp)
    have devices: "load_config_devices e (save_full_config devmap ?gs) = Inr (sort_key fst devmap)"
      using dm(2) by (simp add: load_devices_saved [OF dm(1)] filter_no_groups_key)
    have lookup: "map_of ?gs' g' = map_option sort_keys (((map_of groups)(g \<mapsto> JArr ?X)) g')" for g'
      by (simp only: map_of_saved_groups update_conv')
    have "map_of ?gs' g = Some (JArr (map sort_keys ms @ map JStr (or_empty names)
                                @ map split_pair (or_empty pairs)))"
      unfolding lookup by (simp add: sort_keys_split_pair)
    moreover have "\<forall>g'. g' \<noteq> g \<longrightarrow> map_of ?gs' g' = map_option sort_keys (map_of groups g')"
      unfolding lookup by simp
    ultimately show "\<exists>groups'.
               fst (groups_add_members e f g names pairs) = None
             \<and> load_config_devices e (snd (groups_add_members e f g names pairs))
                 = Inr (sort_key fst devmap)
             \<and> load_config_groups e (snd (groups_add_members e f g names pairs)) = Inr groups'
             \<and> map_of groups' g
                 = Some (JArr (map sort_keys ms @ map JStr (or_empty names)
                                @ map split_pair (or_empty pairs)))
             \<and> (\<forall>g'. g' \<noteq> g \<longrightarrow> map_of groups' g' = map_option sort_keys (map_of groups g'))"
      using devices by (intro exI [of _ ?gs']) (simp add: run load_groups_saved)
  }
qed


theorem add_members_witness:
  "groups_add_members example_env example_home ''hall'' (Some []) None
      = (Some NoMembersGiven, example_home)
   \<and> groups_add_members example_env example_home ''hall'' (Some [''lamp'', ''ghost'']) (Some [''dev3:H6159''])
      = (Some (UnknownNickname ''ghost''), example_home)
   \<and> fst (groups_add_members example_env example_home ''hall'' (Some [''lamp'', ''lamp'']) (Some [''dev3:H6159'']))
      = None
   \<and> load_config_groups example_env
        (snd (groups_add_members example_env example_home ''hall'' (Some [''lamp'', ''lamp'']) (Some [''dev3:H6159''])))
      = Inr [(''hall'', JArr [JStr ''desk'', JStr ''lamp'', JStr ''lamp'',
                              JObj [(''id'', JStr ''dev3''), (''model'', JStr ''H6159'')]]),
             (''room'', JArr [JStr ''lamp'',
                              JObj [(''id'', JStr ''dev1''), (''model'', JStr ''H6008'')],
                              JStr ''desk'',
                              JStr ''lamp''])]"
proof -
  note d = example_home_devices
  note g = example_home_groups
  have hall: "map_of [(''room'', JArr [JStr ''lamp'',
                             JObj [(''model'', JStr ''H6008''), (''id'', JStr ''dev1'')],
                             JStr ''desk'',
                             JStr ''lamp'']),
            (''hall'', JArr [JStr ''desk''])] ''hall'' = Some (JArr [JStr ''desk''])"
    by simp
  have p0: "\<forall>p \<in> set (or_empty (None :: string list option)). CHR '':'' \<in> set p"
    by simp
  have p1: "\<forall>p \<in> set (or_empty (Some [''dev3:H6159''])). CHR '':'' \<in> set p"
    by simp
  have a: "groups_add_members example_env example_home ''hall'' (Some []) None
      = (Some NoMembersGiven, example_home)"
    using add_members [OF d g hall p0, of "Some []"] by simp
  have b: "groups_add_members example_env example_home ''hall'' (Some [''lamp'', ''ghost'']) (Some [''dev3:H6159''])
      = (Some (UnknownNickname ''ghost''), example_home)"
    using add_members [OF d g hall p1, of "Some [''lamp'', ''ghost'']"] by simp
  have run: "groups_add_members example_env example_home ''hall'' (Some [''lamp'', ''lamp'']) (Some [''dev3:H6159''])
      = (None, save_full_config [(''lamp'', (''dev1'', ''H6008'')), (''desk'', (''dev2'', ''H6008''))]
                 [(''room'', JArr [JStr ''lamp'',
                             JObj [(''model'', JStr ''H6008''), (''id'', JStr ''dev1'')],
                             JStr ''desk'',
                             JStr ''lamp'']),
                  (''hall'', JArr [JStr ''desk'', JStr ''lamp'', JStr ''lamp'',
                                   JObj [(''id'', JStr ''dev3''), (''model'', JStr ''H6159'')]])])"
    by (simp add: groups_add_members_def d g parse_pairs_def split_pair_def)
  have c: "fst (groups_add_members example_env example_home ''hall'' (Some [''lamp'', ''lamp'']) (Some [''dev3:H6159'']))
      = None
   \<and> load_config_groups example_env
        (snd (groups_add_members example_env example_home ''hall'' (Some [''lamp'', ''lamp'']) (Some [''dev3:H6159''])))
      = Inr [(''hall'', JArr [JStr ''desk'', JStr ''lamp'', JStr ''lamp'',
                              JObj [(''id'', JStr ''dev3''), (''model'', JStr ''H6159'')]]),
             (''room'', JArr [JStr ''lamp'',
                              JObj [(''id'', JStr ''dev1''), (''model'', JStr ''H6008'')],
                              JStr ''desk'',
                              JStr ''lamp''])]"
    by (simp add: run load_groups_saved)
  from a b c show ?thesis by simp
qed

text \<open>A pair \<open>id:model\<close> is split at its first colon: the inline member has the
  identifier and the model that were given when the identifier holds no colon.\<close>

lemma split_pair_first_colon:
  "CHR '':'' \<notin> set i \<Longrightarrow>
     split_pair (i @ CHR '':'' # m) = JObj [(''id'', JStr i), (''model'', JStr m)]"
  by (induction i) (auto simp: split_pair_def)

text \<open>
  C3. The pairs of an add-members request are to be appended as inline references to
  the devices given. A device identifier of the vendor is written with colons (the
  docstring of the module shows \<^verbatim>\<open>aa:bb:...:11:22\<close>), and \<open>_parse_pairs\<close> splits a pair
  at its first colon: the pair of the identifier \<^verbatim>\<open>aa:bb:cc:dd:ee:ff:11:22\<close> and the
  model \<^verbatim>\<open>H6008\<close> is stored as the inline member with the identifier \<^verbatim>\<open>aa\<close> and the
  model \<^verbatim>\<open>bb:cc:dd:ee:ff:11:22:H6008\<close>.
\<close>

theorem add_members_splits_id:
  "fst (groups_add_members example_env example_home ''hall'' None
          (Some [''aa:bb:cc:dd:ee:ff:11:22:H6008''])) = None
   \<and> load_config_groups example_env
        (snd (groups_add_members example_env example_home ''hall'' None
                (Some [''aa:bb:cc:dd:ee:ff:11:22:H6008''])))
      = Inr [(''hall'', JArr [JStr ''desk'',
                              JObj [(''id'', JStr ''aa''),
                                    (''model'', JStr ''bb:cc:dd:ee:ff:11:22:H6008'')]]),
             (''room'', JArr [JStr ''lamp'',
                              JObj [(''id'', JStr ''dev1''), (''model'', JStr ''H6008'')],
                              JStr ''desk'',
                              JStr ''lamp''])]"
proof -
  have run: "groups_add_members example_env example_home ''hall'' None
          (Some [''aa:bb:cc:dd:ee:ff:11:22:H6008''])
      = (None, save_full_config [(''lamp'', (''dev1'', ''H6008'')), (''desk'', (''dev2'', ''H6008''))]
                 [(''room'', JArr [JStr ''lamp'',
                             JObj [(''model'', JStr ''H6008''), (''id'', JStr ''dev1'')],
                             JStr ''desk'',
                             JStr ''lamp'']),
                  (''hall'', JArr [JStr ''desk'',
                                   JObj [(''id'', JStr ''aa''),
                                         (''model'', JStr ''bb:cc:dd:ee:ff:11:22:H6008'')]])])"
    by (simp add: groups_add_members_def example_home_devices example_home_groups
          parse_pairs_def split_pair_def)
  show ?thesis
    by (simp add: run load_groups_saved)
qed

end
